theory Spec2Isabelle
  imports Main "HOL-Library.Sublist"
begin

section \<open>Python strings\<close>

text \<open>
  Python \<^verbatim>\<open>str\<close> values are modelled as \<^typ>\<open>string\<close>, a \<^typ>\<open>char\<close> standing for a code
  point below 256. The operations below are the \<^verbatim>\<open>str\<close> methods the backend calls:
  \<^verbatim>\<open>in\<close>, \<^verbatim>\<open>split(sep)\<close>, \<^verbatim>\<open>replace(old, new)\<close>, \<^verbatim>\<open>strip()\<close> and \<^verbatim>\<open>endswith\<close>.
\<close>

abbreviation NL :: char where "NL \<equiv> CHR 0x0A"
abbreviation SQ :: char where "SQ \<equiv> CHR 0x27"
abbreviation BQ :: char where "BQ \<equiv> CHR 0x60"

text \<open>\<^verbatim>\<open>sub in s\<close>: some suffix of \<open>s\<close> starts with \<open>sub\<close>.\<close>

fun contains :: "string \<Rightarrow> string \<Rightarrow> bool" where
  "contains sub [] = (sub = [])"
| "contains sub (c # cs) = (prefix sub (c # cs) \<or> contains sub cs)"

text \<open>
  \<^verbatim>\<open>s.split(sep)\<close> scans left to right and cuts at every non-overlapping occurrence of
  \<open>sep\<close>; \<open>acc\<close> is the piece being collected. Python raises \<^verbatim>\<open>ValueError\<close> on an empty
  separator; every call site passes a non-empty literal.
\<close>

function split_py :: "string \<Rightarrow> string \<Rightarrow> string \<Rightarrow> string list" where
  "split_py sep acc [] = [acc]"
| "split_py sep acc (c # cs) =
     (if sep \<noteq> [] \<and> prefix sep (c # cs)
      then acc # split_py sep [] (drop (length sep) (c # cs))
      else split_py sep (acc @ [c]) cs)"
  by pat_completeness auto
termination
  by (relation "measure (\<lambda>(sep, acc, s). length s)") auto

definition str_split :: "string \<Rightarrow> string \<Rightarrow> string list" where
  "str_split sep s = split_py sep [] s"

text \<open>\<^verbatim>\<open>s.replace(old, new)\<close> for a non-empty \<open>old\<close>: every non-overlapping occurrence, left to right.\<close>

function str_replace :: "string \<Rightarrow> string \<Rightarrow> string \<Rightarrow> string" where
  "str_replace old new [] = []"
| "str_replace old new (c # cs) =
     (if old \<noteq> [] \<and> prefix old (c # cs)
      then new @ str_replace old new (drop (length old) (c # cs))
      else c # str_replace old new cs)"
  by pat_completeness auto
termination
  by (relation "measure (\<lambda>(old, new, s). length s)") auto

text \<open>
  The code points below 256 for which \<^verbatim>\<open>str.isspace\<close> holds, and which \<^verbatim>\<open>strip()\<close> removes:
  tab to carriage return, the four separators, space, next line and no-break space.
\<close>

definition isspace :: "char \<Rightarrow> bool" where
  "isspace c = (c \<in> set [CHR 0x09, CHR 0x0A, CHR 0x0B, CHR 0x0C, CHR 0x0D,
                          CHR 0x1C, CHR 0x1D, CHR 0x1E, CHR 0x1F, CHR 0x20,
                          CHR 0x85, CHR 0xA0])"

definition lstrip :: "string \<Rightarrow> string" where
  "lstrip s = dropWhile isspace s"

definition rstrip :: "string \<Rightarrow> string" where
  "rstrip s = rev (dropWhile isspace (rev s))"

definition strip :: "string \<Rightarrow> string" where
  "strip s = rstrip (lstrip s)"

definition endswith :: "string \<Rightarrow> string \<Rightarrow> bool" where
  "endswith s suf = suffix suf s"

section \<open>Exceptions\<close>

text \<open>
  A raised exception is a value. \<open>NonException\<close> stands for the \<^verbatim>\<open>BaseException\<close>
  subclasses (\<^verbatim>\<open>KeyboardInterrupt\<close>, \<^verbatim>\<open>SystemExit\<close>) that an \<^verbatim>\<open>except Exception\<close>
  clause does not catch; all other constructors are subclasses of \<^verbatim>\<open>Exception\<close>.
\<close>

datatype exn =
    TypeError string
  | IndexError
  | CalledProcessError int string
  | OtherException string
  | NonException string

fun is_Exception :: "exn \<Rightarrow> bool" where
  "is_Exception (NonException _) = False"
| "is_Exception _ = True"

text \<open>\<^verbatim>\<open>str(e)\<close>, as the handlers interpolate it into their messages.\<close>

fun exn_str :: "exn \<Rightarrow> string" where
  "exn_str (TypeError m) = m"
| "exn_str IndexError = ''list index out of range''"
| "exn_str (CalledProcessError rc err) = ''Command returned non-zero exit status''"
| "exn_str (OtherException m) = m"
| "exn_str (NonException m) = m"

section \<open>Script Synthesizer: parsing the model's answer\<close>

record script_info =
  script :: string
  packages :: "string list"

text \<open>
  Lines 21--32 of \<^verbatim>\<open>generate_script\<close>: what is made of \<^verbatim>\<open>response.output_text\<close>.
  The two list subscripts \<^verbatim>\<open>[1]\<close> and \<^verbatim>\<open>[0]\<close> raise \<^verbatim>\<open>IndexError\<close> on a list that is too short.
\<close>

definition generate_script_parse :: "string \<Rightarrow> exn + script_info" where
  "generate_script_parse output_text =
     (if contains ''PACKAGES:'' output_text then
        (case str_split ''PACKAGES:'' output_text of
           _ # after # _ \<Rightarrow>
             (case str_split [NL] after of
                first # _ \<Rightarrow>
                  (let packages_line = strip first;
                       pkgs = map strip (str_split '','' packages_line);
                       scr = strip (str_replace (''PACKAGES: '' @ packages_line @ [NL]) [] output_text)
                   in Inr \<lparr>script = scr, packages = pkgs\<rparr>)
              | [] \<Rightarrow> Inl IndexError)
         | _ \<Rightarrow> Inl IndexError)
      else Inr \<lparr>script = output_text, packages = [''numpy'', ''pandas'', ''matplotlib'']\<rparr>)"


text \<open>\<^verbatim>\<open>sep.join(xs)\<close>.\<close>

fun str_join :: "string \<Rightarrow> string list \<Rightarrow> string" where
  "str_join sep [] = []"
| "str_join sep [x] = x"
| "str_join sep (x # y # ys) = x @ sep @ str_join sep (y # ys)"

text \<open>\<^verbatim>\<open>_clean_script\<close> of \<^verbatim>\<open>Tools\<close>: the code-fence markers are deleted, the rest is stripped.\<close>

definition clean_script :: "string \<Rightarrow> string" where
  "clean_script s =
     strip (str_replace [BQ, BQ, BQ] [] (str_replace ([BQ, BQ, BQ] @ ''python'') [] s))"

section \<open>Python values, dictionaries, data frames\<close>

text \<open>
  Tool arguments (the result of \<^verbatim>\<open>json.loads\<close>) and tool results are Python values.
  A \<^verbatim>\<open>dict\<close> is an association list in insertion order; \<open>dict_has\<close> is \<^verbatim>\<open>k in d\<close>
  and \<open>dict_get\<close> is \<^verbatim>\<open>d.get(k)\<close>.
\<close>

datatype pyval =
    PNone
  | PBool bool
  | PInt int
  | PStr string
  | PList "pyval list"
  | PTuple "pyval list"
  | PDict "(string \<times> pyval) list"

type_synonym pydict = "(string \<times> pyval) list"

definition dict_has :: "pydict \<Rightarrow> string \<Rightarrow> bool" where
  "dict_has d k = (k \<in> set (map fst d))"

definition dict_get :: "pydict \<Rightarrow> string \<Rightarrow> pyval" where
  "dict_get d k = (case map_of d k of Some v \<Rightarrow> v | None \<Rightarrow> PNone)"

text \<open>
  A pandas \<^verbatim>\<open>DataFrame\<close>, as far as the tools read it: \<^verbatim>\<open>shape\<close>, \<^verbatim>\<open>columns\<close>, the rows
  as \<^verbatim>\<open>to_dict(orient="records")\<close> renders them, \<^verbatim>\<open>dtypes\<close> as strings, and the
  \<^verbatim>\<open>describe()\<close> summary. These attributes are total on a frame that \<^verbatim>\<open>read_csv\<close> returned.
\<close>

record dataframe =
  df_shape :: "int \<times> int"
  df_columns :: "string list"
  df_rows :: "pyval list"
  df_dtypes :: "(string \<times> string) list"
  df_describe :: pyval

section \<open>File system\<close>

text \<open>
  The file system is a table from path to node, looked up with \<^const>\<open>map_of\<close> (the first
  entry of a path is the current one). Paths are the POSIX strings the backend builds
  with \<^verbatim>\<open>os.path.join\<close>.
\<close>

datatype node = File string | Dir

type_synonym path = string
type_synonym filesystem = "(path \<times> node) list"

definition path_join :: "path \<Rightarrow> path \<Rightarrow> path" where
  "path_join a b =
     (if b \<noteq> [] \<and> hd b = CHR ''/'' then b
      else if a = [] \<or> last a = CHR ''/'' then a @ b
      else a @ ''/'' @ b)"

definition path_exists :: "filesystem \<Rightarrow> path \<Rightarrow> bool" where
  "path_exists t p = (map_of t p \<noteq> None)"

text \<open>\<open>under d p\<close>: \<open>p\<close> is the directory \<open>d\<close> itself or lies below it.\<close>

definition under :: "path \<Rightarrow> path \<Rightarrow> bool" where
  "under d p = (p = d \<or> prefix (d @ ''/'') p)"

definition child_name :: "path \<Rightarrow> path \<Rightarrow> string option" where
  "child_name d p =
     (if prefix (d @ ''/'') p
      then (let n = drop (length d + 1) p
            in if n \<noteq> [] \<and> CHR ''/'' \<notin> set n then Some n else None)
      else None)"

definition listdir :: "filesystem \<Rightarrow> path \<Rightarrow> exn + string list" where
  "listdir t d =
     (case map_of t d of
        None \<Rightarrow> Inl (OtherException ''FileNotFoundError'')
      | Some (File _) \<Rightarrow> Inl (OtherException ''NotADirectoryError'')
      | Some Dir \<Rightarrow> Inr (remdups (List.map_filter (child_name d) (map fst t))))"

text \<open>\<^verbatim>\<open>os.makedirs(p, exist_ok=True)\<close> for a one-component path.\<close>

definition makedirs :: "filesystem \<Rightarrow> path \<Rightarrow> exn + filesystem" where
  "makedirs t p =
     (case map_of t p of
        None \<Rightarrow> Inr ((p, Dir) # t)
      | Some Dir \<Rightarrow> Inr t
      | Some (File _) \<Rightarrow> Inl (OtherException ''FileExistsError''))"

text \<open>\<^verbatim>\<open>open(p, "w")\<close>, \<^verbatim>\<open>write\<close>, close: the file is created or truncated.\<close>

definition write_file :: "filesystem \<Rightarrow> path \<Rightarrow> string \<Rightarrow> exn + filesystem" where
  "write_file t p content =
     (case map_of t p of
        Some Dir \<Rightarrow> Inl (OtherException ''IsADirectoryError'')
      | _ \<Rightarrow> Inr ((p, File content) # t))"

text \<open>Removal of a directory tree, as \<^verbatim>\<open>TemporaryDirectory.cleanup\<close> does it.\<close>

definition rmtree :: "path \<Rightarrow> filesystem \<Rightarrow> filesystem" where
  "rmtree d t = filter (\<lambda>(p, n). \<not> under d p) t"

section \<open>Messages, the model, the outside world\<close>

record tool_call =
  tc_type :: string
  call_id :: string
  tc_name :: string
  arguments :: string

text \<open>
  A conversation turn. A tool result is kept as the value whose \<^verbatim>\<open>str\<close> (for the model) or
  \<^verbatim>\<open>json.dumps\<close> (for the database) rendering the code stores.
\<close>

datatype message =
    UserMessage string
  | AssistantMessage string
  | FunctionCall tool_call
  | FunctionCallOutput string pydict
  | FinalMessage string "pyval option"

text \<open>The fields \<^verbatim>\<open>generate_script\<close> substitutes into \<^verbatim>\<open>SCRIPT_GENERATION_TEMPLATE\<close>.\<close>

record script_prompt =
  p_data_file :: "string option"
  p_dataset_path :: path
  p_shape :: "int \<times> int"
  p_columns :: string
  p_dtypes :: "(string \<times> string) list"
  p_user_query :: pyval
  p_conversation_id :: int

text \<open>
  A request to \<^verbatim>\<open>client.responses.create\<close>: the conversation with instructions and the
  tool catalogue (orchestration loop), or the single script-generation prompt.
\<close>

datatype request = ChatRequest "message list" | ScriptRequest script_prompt

text \<open>
  The \<^verbatim>\<open>usage\<close> of a response: the attribute may be missing, may be \<^verbatim>\<open>None\<close>, or holds the
  record that \<^verbatim>\<open>model_dump()\<close> renders.
\<close>

datatype usage_field = NoUsageAttribute | UsageNone | Usage pyval

record response =
  output_text :: string
  output_items :: "tool_call list"
  usage :: usage_field

record completed =
  returncode :: int
  stdout :: string
  stderr :: string

text \<open>What the backend asks of the outside: model requests, environments, processes, warnings.\<close>

datatype event =
    ModelRequest request
  | VenvCreate path
  | Spawn "string list"
  | LogWarning string

record world =
  files :: filesystem
  data :: "dataframe option"
  data_file :: "string option"
  messages :: "message list"
  db_conversations :: "(int \<times> string \<times> string) list"
  db_messages :: "(int \<times> message) list"
  events :: "event list"

text \<open>
  The collaborators the code calls and does not implement. The model is a scripted
  responder: it sees how many requests came before and the request. \<open>venv_create\<close> and
  \<open>run_process\<close> may change the file system in any way, also when they raise.
\<close>

record env =
  os_name :: string
  json_loads :: "string \<Rightarrow> exn + pyval"
  read_csv :: "filesystem \<Rightarrow> path \<Rightarrow> exn + dataframe"
  client :: "nat \<Rightarrow> request \<Rightarrow> exn + response"
  mkdtemp :: "filesystem \<Rightarrow> path"
  venv_create :: "path \<Rightarrow> filesystem \<Rightarrow> exn option \<times> filesystem"
  run_process :: "string list \<Rightarrow> filesystem \<Rightarrow> (exn + completed) \<times> filesystem"

fun is_model_request :: "event \<Rightarrow> bool" where
  "is_model_request (ModelRequest _) = True"
| "is_model_request _ = False"

fun is_chat_request :: "event \<Rightarrow> bool" where
  "is_chat_request (ModelRequest (ChatRequest _)) = True"
| "is_chat_request _ = False"

fun is_sandbox_event :: "event \<Rightarrow> bool" where
  "is_sandbox_event (VenvCreate _) = True"
| "is_sandbox_event (Spawn _) = True"
| "is_sandbox_event _ = False"

definition model_requests :: "world \<Rightarrow> nat" where
  "model_requests w = length (filter is_model_request (events w))"

definition chat_requests :: "world \<Rightarrow> nat" where
  "chat_requests w = length (filter is_chat_request (events w))"

definition emit :: "event \<Rightarrow> world \<Rightarrow> world" where
  "emit e w = w\<lparr>events := events w @ [e]\<rparr>"

section \<open>Script Synthesizer\<close>

text \<open>
  \<^verbatim>\<open>generate_script\<close>: the prompt is formatted outside the \<^verbatim>\<open>try\<close> (reading \<^verbatim>\<open>agent.data.shape\<close>
  raises \<^verbatim>\<open>AttributeError\<close> when no frame is loaded); the single model exchange and the parsing
  are inside it, and any \<^verbatim>\<open>Exception\<close> there makes the function return \<^verbatim>\<open>None\<close>.
\<close>

definition format_prompt ::
  "string option \<Rightarrow> dataframe \<Rightarrow> pyval \<Rightarrow> path \<Rightarrow> int \<Rightarrow> script_prompt" where
  "format_prompt file df user_query dataset_path conversation_id =
     \<lparr>p_data_file = file, p_dataset_path = dataset_path,
      p_shape = df_shape df, p_columns = str_join '', '' (df_columns df),
      p_dtypes = take 5 (df_dtypes df), p_user_query = user_query,
      p_conversation_id = conversation_id\<rparr>"

definition generate_script ::
  "env \<Rightarrow> pyval \<Rightarrow> path \<Rightarrow> int \<Rightarrow> world \<Rightarrow> (exn + script_info option) \<times> world" where
  "generate_script E user_query dataset_path conversation_id w =
     (case data w of
        None \<Rightarrow> (Inl (OtherException ''AttributeError''), w)
      | Some df \<Rightarrow>
          (let prompt = format_prompt (data_file w) df user_query dataset_path conversation_id;
               req = ScriptRequest prompt;
               w1 = emit (ModelRequest req) w
           in case client E (model_requests w) req of
                Inl e \<Rightarrow> (if is_Exception e then Inr None else Inl e, w1)
              | Inr resp \<Rightarrow>
                  (case generate_script_parse (output_text resp) of
                     Inl e \<Rightarrow> (if is_Exception e then Inr None else Inl e, w1)
                   | Inr info \<Rightarrow> (Inr (Some info), w1))))"

section \<open>Sandbox Executor\<close>

text \<open>
  \<^verbatim>\<open>subprocess.run(cmd, capture_output=True, text=True, check=...)\<close>: with \<^verbatim>\<open>check\<close>, a
  non-zero return code raises \<^verbatim>\<open>CalledProcessError\<close> carrying the captured stderr.
\<close>

definition subprocess_run ::
  "env \<Rightarrow> string list \<Rightarrow> bool \<Rightarrow> world \<Rightarrow> (exn + completed) \<times> world" where
  "subprocess_run E cmd check w =
     (case run_process E cmd (files w) of
        (r, t) \<Rightarrow>
          (let w1 = emit (Spawn cmd) (w\<lparr>files := t\<rparr>)
           in case r of
                Inl e \<Rightarrow> (Inl e, w1)
              | Inr p \<Rightarrow>
                  if check \<and> returncode p \<noteq> 0
                  then (Inl (CalledProcessError (returncode p) (stderr p)), w1)
                  else (Inr p, w1)))"

text \<open>The interpreter of the environment, and the installer's command line.\<close>

definition venv_python :: "env \<Rightarrow> path \<Rightarrow> path" where
  "venv_python E venv_dir =
     (if os_name E = ''nt''
      then path_join (path_join venv_dir ''Scripts'') ''python.exe''
      else path_join (path_join venv_dir ''bin'') ''python'')"

definition pip_command :: "path \<Rightarrow> path \<Rightarrow> string list" where
  "pip_command python_path requirements_path =
     [python_path, ''-m'', ''pip'', ''install'', ''-r'', requirements_path]"

text \<open>The statements of the \<^verbatim>\<open>try\<close> block of \<^verbatim>\<open>execute_standalone_script\<close>.\<close>

definition sandbox_try ::
  "env \<Rightarrow> path \<Rightarrow> path \<Rightarrow> path \<Rightarrow> world \<Rightarrow> (exn + pydict) \<times> world" where
  "sandbox_try E venv_dir script_path requirements_path w =
     (case venv_create E venv_dir (files w) of
        (raised, t) \<Rightarrow>
          (let w1 = emit (VenvCreate venv_dir) (w\<lparr>files := t\<rparr>)
           in case raised of
                Some e \<Rightarrow> (Inl e, w1)
              | None \<Rightarrow>
                  (let python_path = venv_python E venv_dir
                   in case subprocess_run E (pip_command python_path requirements_path)
                             True w1 of
                        (Inl e, w2) \<Rightarrow> (Inl e, w2)
                      | (Inr _, w2) \<Rightarrow>
                          (case subprocess_run E [python_path, script_path] False w2 of
                             (Inl e, w3) \<Rightarrow> (Inl e, w3)
                           | (Inr result, w3) \<Rightarrow>
                               if returncode result = 0
                               then (Inr [(''status'', PStr ''success''),
                                          (''output'', PStr (stdout result)),
                                          (''message'', PStr ''Script executed successfully'')], w3)
                               else (Inr [(''status'', PStr ''error''),
                                          (''output'', PStr (stderr result)),
                                          (''message'',
                                           PStr (''Script execution failed: '' @ stderr result))],
                                     w3)))))"

text \<open>The two \<^verbatim>\<open>except\<close> clauses, in the source's order.\<close>

fun sandbox_except :: "(exn + pydict) \<times> world \<Rightarrow> (exn + pydict) \<times> world" where
  "sandbox_except (Inl (CalledProcessError rc err), w) =
     (Inr [(''status'', PStr ''error''),
           (''message'', PStr (''Failed to install required packages: '' @ err))], w)"
| "sandbox_except (Inl e, w) =
     (if is_Exception e
      then (Inr [(''status'', PStr ''error''),
                 (''message'', PStr (''Failed to execute script: '' @ exn_str e))], w)
      else (Inl e, w))"
| "sandbox_except (Inr r, w) = (Inr r, w)"

text \<open>
  \<^verbatim>\<open>with tempfile.TemporaryDirectory() as venv_dir\<close>: the directory is created, the body
  runs, and on leaving the block, by return or by exception, the tree is removed.
\<close>

definition execute_standalone_script ::
  "env \<Rightarrow> path \<Rightarrow> path \<Rightarrow> world \<Rightarrow> (exn + pydict) \<times> world" where
  "execute_standalone_script E script_path requirements_path w =
     (let venv_dir = mkdtemp E (files w);
          w0 = w\<lparr>files := (venv_dir, Dir) # files w\<rparr>
      in case sandbox_except (sandbox_try E venv_dir script_path requirements_path w0) of
           (r, w1) \<Rightarrow> (r, w1\<lparr>files := rmtree venv_dir (files w1)\<rparr>))"

section \<open>Tools\<close>

definition get_dataset_list :: "world \<Rightarrow> exn + pydict" where
  "get_dataset_list w =
     (let dataset_dir = ''datasets''
      in if \<not> path_exists (files w) dataset_dir
         then Inr [(''status'', PStr ''error''),
                   (''message'', PStr (''Directory '' @ [SQ] @ dataset_dir @ [SQ] @ '' not found!''))]
         else (case listdir (files w) dataset_dir of
                 Inl e \<Rightarrow> Inl e
               | Inr names \<Rightarrow>
                   (let fl = filter (\<lambda>f. endswith f ''.csv'') names
                    in if fl = []
                       then Inr [(''status'', PStr ''empty''),
                                 (''message'',
                                  PStr (''No CSV files found in the '' @ [SQ] @ ''datasets'' @ [SQ]
                                        @ '' directory.''))]
                       else Inr [(''status'', PStr ''success''),
                                 (''datasets'', PList (map PStr fl))])))"

text \<open>
  \<^verbatim>\<open>load_dataset\<close>: \<^verbatim>\<open>os.path.join\<close> raises \<^verbatim>\<open>TypeError\<close> on a filename that is not a string.
  The two assignments to the agent follow a successful \<^verbatim>\<open>load_data\<close>.
\<close>

definition load_dataset :: "env \<Rightarrow> pyval \<Rightarrow> world \<Rightarrow> (exn + pydict) \<times> world" where
  "load_dataset E filename w =
     (case filename of
        PStr fname \<Rightarrow>
          (let file_path = path_join ''datasets'' fname
           in if \<not> path_exists (files w) file_path
              then (Inr [(''status'', PStr ''error''),
                         (''message'', PStr (''File '' @ [SQ] @ file_path @ [SQ] @ '' not found!''))],
                    w)
              else (case read_csv E (files w) file_path of
                      Inl e \<Rightarrow>
                        (if is_Exception e
                         then Inr [(''status'', PStr ''error''),
                                   (''message'', PStr (''Error loading dataset: '' @ exn_str e))]
                         else Inl e, w)
                    | Inr df \<Rightarrow>
                        (Inr [(''status'', PStr ''success''),
                              (''filename'', PStr fname),
                              (''shape'', PTuple [PInt (fst (df_shape df)), PInt (snd (df_shape df))]),
                              (''columns'', PList (map PStr (df_columns df))),
                              (''preview'', PList (take 10 (df_rows df)))],
                         w\<lparr>data := Some df, data_file := Some fname\<rparr>)))
      | _ \<Rightarrow> (Inl (TypeError ''join() argument must be str, bytes, or os.PathLike object''), w))"

definition py_opt_str :: "string option \<Rightarrow> pyval" where
  "py_opt_str x = (case x of None \<Rightarrow> PNone | Some s \<Rightarrow> PStr s)"

definition get_data_preview :: "world \<Rightarrow> pydict" where
  "get_data_preview w =
     (case data w of
        None \<Rightarrow> [(''status'', PStr ''error''), (''message'', PStr ''No dataset loaded yet.'')]
      | Some df \<Rightarrow>
          [(''status'', PStr ''success''),
           (''filename'', py_opt_str (data_file w)),
           (''preview'', PList (take 5 (df_rows df)))])"

definition get_data_info :: "world \<Rightarrow> pydict" where
  "get_data_info w =
     (case data w of
        None \<Rightarrow> [(''status'', PStr ''error''), (''message'', PStr ''No dataset loaded yet.'')]
      | Some df \<Rightarrow>
          [(''status'', PStr ''success''),
           (''filename'', py_opt_str (data_file w)),
           (''shape'', PTuple [PInt (fst (df_shape df)), PInt (snd (df_shape df))]),
           (''columns'', PList (map PStr (df_columns df))),
           (''dtypes'', PDict (map (\<lambda>(c, t). (c, PStr t)) (df_dtypes df))),
           (''summary'', df_describe df)])"

text \<open>
  The rest of \<^verbatim>\<open>run_script\<close> once a non-empty script is in hand: clean it, write the two
  single-slot files, execute, and build the result dictionary.
\<close>

definition run_generated ::
  "env \<Rightarrow> script_info \<Rightarrow> world \<Rightarrow> (exn + pydict) \<times> world" where
  "run_generated E info w =
     (let required_packages = packages info;
          scr = clean_script (script info);
          script_path = path_join ''generated_scripts'' ''analysis_script.py'';
          requirements_path = path_join ''generated_scripts'' ''script_requirements.txt''
      in case makedirs (files w) ''generated_scripts'' of
           Inl e \<Rightarrow> (Inl e, w)
         | Inr t1 \<Rightarrow>
             (case write_file t1 script_path scr of
                Inl e \<Rightarrow> (Inl e, w\<lparr>files := t1\<rparr>)
              | Inr t2 \<Rightarrow>
                  (case write_file t2 requirements_path
                          (concat (map (\<lambda>package. package @ [NL]) required_packages)) of
                     Inl e \<Rightarrow> (Inl e, w\<lparr>files := t2\<rparr>)
                   | Inr t3 \<Rightarrow>
                       (case execute_standalone_script E script_path requirements_path
                               (w\<lparr>files := t3\<rparr>) of
                          (Inl e, w1) \<Rightarrow> (Inl e, w1)
                        | (Inr execution_result, w1) \<Rightarrow>
                            (Inr [(''status'',
                                   PStr (if dict_get execution_result ''status'' = PStr ''success''
                                         then ''success'' else ''error'')),
                                  (''script'', PStr scr),
                                  (''required_packages'', PList (map PStr required_packages)),
                                  (''script_path'', PStr script_path),
                                  (''requirements_path'', PStr requirements_path),
                                  (''execution_result'', PDict execution_result),
                                  (''message'',
                                   (case map_of execution_result ''message'' of
                                      Some m \<Rightarrow> m
                                    | None \<Rightarrow> PStr ''Script execution complete.''))],
                             w1)))))"

text \<open>
  \<^verbatim>\<open>run_script\<close>. With a frame loaded and \<^verbatim>\<open>data_file\<close> still \<^verbatim>\<open>None\<close>, \<^verbatim>\<open>os.path.join\<close> raises.
  \<^verbatim>\<open>not script_info or not script_info.get('script')\<close> is true for \<^verbatim>\<open>None\<close> and for an empty script.
\<close>

definition run_script :: "env \<Rightarrow> pyval \<Rightarrow> int \<Rightarrow> world \<Rightarrow> (exn + pydict) \<times> world" where
  "run_script E analysis_request conversation_id w =
     (case data w of
        None \<Rightarrow>
          (Inr [(''status'', PStr ''error''),
                (''message'', PStr ''No dataset loaded. Please load a dataset first.'')], w)
      | Some _ \<Rightarrow>
          (case data_file w of
             None \<Rightarrow>
               (Inl (TypeError ''join() argument must be str, bytes, or os.PathLike object''), w)
           | Some f \<Rightarrow>
               (let dataset_path = path_join ''datasets'' f
                in case generate_script E analysis_request dataset_path conversation_id w of
                     (Inl e, w1) \<Rightarrow> (Inl e, w1)
                   | (Inr None, w1) \<Rightarrow>
                       (Inr [(''status'', PStr ''error''),
                             (''message'', PStr ''Failed to generate analysis script.'')], w1)
                   | (Inr (Some info), w1) \<Rightarrow>
                       if script info = []
                       then (Inr [(''status'', PStr ''error''),
                                  (''message'', PStr ''Failed to generate analysis script.'')], w1)
                       else run_generated E info w1)))"

section \<open>Tool Dispatcher\<close>

text \<open>
  The catalogue of \<^verbatim>\<open>get_tools\<close>: each tool's name with the keys of its \<^verbatim>\<open>parameters\<close>
  schema. Every declared key is required, and \<^verbatim>\<open>additionalProperties\<close> is false throughout.
\<close>

definition get_tools :: "(string \<times> string list) list" where
  "get_tools =
     [(''get_dataset_list'', []),
      (''load_dataset'', [''filename'']),
      (''get_data_preview'', []),
      (''get_data_info'', []),
      (''run_script'', [''analysis_request''])]"

text \<open>
  \<^verbatim>\<open>f(**tool_args)\<close> for a method without parameters and for one with a single required
  parameter: anything but exactly the declared keys raises \<^verbatim>\<open>TypeError\<close>, and so does an
  argument value that is not a mapping. (The keys of a dictionary are distinct.)
\<close>

fun kwargs0 :: "pyval \<Rightarrow> exn + unit" where
  "kwargs0 (PDict []) = Inr ()"
| "kwargs0 (PDict (_ # _)) = Inl (TypeError ''got an unexpected keyword argument'')"
| "kwargs0 _ = Inl (TypeError ''argument after ** must be a mapping'')"

fun kwargs1 :: "string \<Rightarrow> pyval \<Rightarrow> exn + pyval" where
  "kwargs1 p (PDict []) = Inl (TypeError ''missing 1 required positional argument'')"
| "kwargs1 p (PDict [(k, v)]) =
     (if k = p then Inr v else Inl (TypeError ''got an unexpected keyword argument''))"
| "kwargs1 p (PDict (_ # _ # _)) = Inl (TypeError ''got an unexpected keyword argument'')"
| "kwargs1 p _ = Inl (TypeError ''argument after ** must be a mapping'')"

definition call_function ::
  "env \<Rightarrow> string \<Rightarrow> pyval \<Rightarrow> int \<Rightarrow> world \<Rightarrow> (exn + pydict) \<times> world" where
  "call_function E tool_name tool_args conversation_id w =
     (if tool_name = ''get_dataset_list'' then
        (case kwargs0 tool_args of
           Inl e \<Rightarrow> (Inl e, w)
         | Inr _ \<Rightarrow> (get_dataset_list w, w))
      else if tool_name = ''load_dataset'' then
        (case kwargs1 ''filename'' tool_args of
           Inl e \<Rightarrow> (Inl e, w)
         | Inr filename \<Rightarrow> load_dataset E filename w)
      else if tool_name = ''get_data_preview'' then
        (case kwargs0 tool_args of
           Inl e \<Rightarrow> (Inl e, w)
         | Inr _ \<Rightarrow> (Inr (get_data_preview w), w))
      else if tool_name = ''get_data_info'' then
        (case kwargs0 tool_args of
           Inl e \<Rightarrow> (Inl e, w)
         | Inr _ \<Rightarrow> (Inr (get_data_info w), w))
      else if tool_name = ''run_script'' then
        (case kwargs1 ''analysis_request'' tool_args of
           Inl e \<Rightarrow> (Inl e, w)
         | Inr analysis_request \<Rightarrow>
             (case run_script E analysis_request conversation_id w of
                (Inl e, w1) \<Rightarrow> (Inl e, w1)
              | (Inr tool_output, w1) \<Rightarrow>
                  if dict_get tool_output ''status'' = PStr ''success''
                     \<and> dict_has tool_output ''output''
                  then (Inr [(''status'', PStr ''executed''),
                             (''message'', dict_get tool_output ''output'')], w1)
                  else (Inr tool_output, w1)))
      else (Inr [(''status'', PStr ''error''),
                 (''message'', PStr (''Unknown tool: '' @ tool_name))], w))"

section \<open>Agent: one exchange with the model\<close>

text \<open>
  What \<^verbatim>\<open>process_user_input\<close> and \<^verbatim>\<open>handle_tool_response\<close> return. In the \<^verbatim>\<open>except\<close> branch the
  dictionary has no \<^verbatim>\<open>final_tool_calls\<close> key, which the caller reads with \<^verbatim>\<open>get\<close> and tests for
  truth: the empty list here.
\<close>

record agent_response =
  final_tool_calls :: "tool_call list"
  needs_tool_call :: bool
  ar_output_text :: string
  token_usage :: "pyval option"
  ar_error :: "string option"

text \<open>
  \<^verbatim>\<open>response.usage.model_dump() if hasattr(response, 'usage') else None\<close>: on a response whose
  \<^verbatim>\<open>usage\<close> is \<^verbatim>\<open>None\<close> the call raises \<^verbatim>\<open>AttributeError\<close>.
\<close>

fun usage_model_dump :: "usage_field \<Rightarrow> exn + pyval option" where
  "usage_model_dump NoUsageAttribute = Inr None"
| "usage_model_dump UsageNone =
     Inl (OtherException ([SQ] @ ''NoneType'' @ [SQ] @ '' object has no attribute '' @
                          [SQ] @ ''model_dump'' @ [SQ]))"
| "usage_model_dump (Usage u) = Inr (Some u)"

text \<open>The dictionary of the \<^verbatim>\<open>except\<close> branch.\<close>

definition apology_response :: "string \<Rightarrow> exn \<Rightarrow> agent_response" where
  "apology_response apology e =
     \<lparr>final_tool_calls = [], needs_tool_call = False, ar_output_text = apology,
      token_usage = None, ar_error = Some (exn_str e)\<rparr>"

text \<open>
  The body the two methods share, with \<^verbatim>\<open>stream=False\<close> as \<^verbatim>\<open>query_agent\<close> calls them: the
  request, the function-call items of the answer, the token usage, the assistant turn when
  there is text. Everything is inside the \<^verbatim>\<open>try\<close>: an \<^verbatim>\<open>Exception\<close> from the request or from
  reading the usage gives the apology, and the assistant turn is then not appended.
\<close>

definition model_exchange :: "string \<Rightarrow> env \<Rightarrow> world \<Rightarrow> (exn + agent_response) \<times> world" where
  "model_exchange apology E w =
     (let req = ChatRequest (messages w);
          w1 = emit (ModelRequest req) w
      in case client E (model_requests w) req of
           Inl e \<Rightarrow> (if is_Exception e then Inr (apology_response apology e) else Inl e, w1)
         | Inr resp \<Rightarrow>
             (let calls = filter (\<lambda>item. tc_type item = ''function_call'') (output_items resp)
              in case usage_model_dump (usage resp) of
                   Inl e \<Rightarrow> (Inr (apology_response apology e), w1)
                 | Inr tokens \<Rightarrow>
                     (let w2 = (if output_text resp \<noteq> []
                                then w1\<lparr>messages :=
                                          messages w1 @ [AssistantMessage (output_text resp)]\<rparr>
                                else w1)
                      in (Inr \<lparr>final_tool_calls = calls,
                               needs_tool_call =
                                 list_ex (\<lambda>tc. tc_type tc = ''function_call'') calls,
                               ar_output_text = output_text resp, token_usage = tokens,
                               ar_error = None\<rparr>, w2))))"

definition process_user_input ::
  "env \<Rightarrow> string \<Rightarrow> world \<Rightarrow> (exn + agent_response) \<times> world" where
  "process_user_input E user_input w =
     model_exchange (''I'' @ [SQ] @ ''m having trouble processing your request. Please try again.'') E
       (w\<lparr>messages := messages w @ [UserMessage user_input]\<rparr>)"

definition handle_tool_response :: "env \<Rightarrow> world \<Rightarrow> (exn + agent_response) \<times> world" where
  "handle_tool_response E w =
     model_exchange
       (''I'' @ [SQ] @ ''m having trouble processing the tool response. Please try again.'') E w"

section \<open>Orchestration loop\<close>

record tool_result =
  tr_tool :: string
  tr_arguments :: pyval
  tr_result :: pydict

text \<open>The dictionary \<^verbatim>\<open>query_agent\<close> returns: these four keys and no other.\<close>

record query_response =
  qr_response :: string
  qr_tool_results :: "tool_result list option"
  qr_conversation_id :: int
  qr_extra_data :: "pyval option"

definition max_tool_calls :: nat where
  "max_tool_calls = 5"

text \<open>The database collaborator: a new row gets the largest id plus one.\<close>

definition create_conversation :: "string \<Rightarrow> string \<Rightarrow> world \<Rightarrow> int \<times> world" where
  "create_conversation name agent_id w =
     (let cid = fold max (map fst (db_conversations w)) 0 + 1
      in (cid, w\<lparr>db_conversations := db_conversations w @ [(cid, name, agent_id)]\<rparr>))"

definition save_message :: "int \<Rightarrow> message \<Rightarrow> world \<Rightarrow> world" where
  "save_message cid m w = w\<lparr>db_messages := db_messages w @ [(cid, m)]\<rparr>"

text \<open>
  The \<^verbatim>\<open>for\<close> loop over one batch of tool calls. \<^verbatim>\<open>json.loads\<close> and \<^verbatim>\<open>call_function\<close> are not
  inside any \<^verbatim>\<open>try\<close>: what they raise leaves the loop and \<^verbatim>\<open>query_agent\<close>.
\<close>

fun run_tool_calls ::
  "env \<Rightarrow> int \<Rightarrow> tool_call list \<Rightarrow> tool_result list \<Rightarrow> world
   \<Rightarrow> (exn + tool_result list) \<times> world" where
  "run_tool_calls E cid [] tool_results w = (Inr tool_results, w)"
| "run_tool_calls E cid (tc # tcs) tool_results w =
     (if tc_type tc \<noteq> ''function_call'' then run_tool_calls E cid tcs tool_results w
      else
        (let w1 = save_message cid (FunctionCall tc) w;
             w2 = w1\<lparr>messages := messages w1 @ [FunctionCall tc]\<rparr>
         in case json_loads E (arguments tc) of
              Inl e \<Rightarrow> (Inl e, w2)
            | Inr args \<Rightarrow>
                (case call_function E (tc_name tc) args cid w2 of
                   (Inl e, w3) \<Rightarrow> (Inl e, w3)
                 | (Inr result, w3) \<Rightarrow>
                     (let w4 = save_message cid (FunctionCallOutput (call_id tc) result) w3;
                          w5 = w4\<lparr>messages :=
                                     messages w4 @ [FunctionCallOutput (call_id tc) result]\<rparr>
                      in run_tool_calls E cid tcs
                           (tool_results @
                              [\<lparr>tr_tool = tc_name tc, tr_arguments = args, tr_result = result\<rparr>])
                           w5))))"

text \<open>The \<^verbatim>\<open>while\<close> loop of \<^verbatim>\<open>query_agent\<close>, with the counter \<^verbatim>\<open>tool_call_count\<close>.\<close>

function tool_loop ::
  "env \<Rightarrow> int \<Rightarrow> agent_response \<Rightarrow> nat \<Rightarrow> tool_result list \<Rightarrow> world
   \<Rightarrow> (exn + agent_response \<times> nat \<times> tool_result list) \<times> world" where
  "tool_loop E cid agent_resp tool_call_count tool_results w =
     (if needs_tool_call agent_resp \<and> tool_call_count < max_tool_calls then
        (case run_tool_calls E cid (final_tool_calls agent_resp) tool_results w of
           (Inl e, w1) \<Rightarrow> (Inl e, w1)
         | (Inr tool_results1, w1) \<Rightarrow>
             (case handle_tool_response E w1 of
                (Inl e, w2) \<Rightarrow> (Inl e, w2)
              | (Inr agent_resp1, w2) \<Rightarrow>
                  tool_loop E cid agent_resp1 (tool_call_count + 1) tool_results1 w2))
      else (Inr (agent_resp, tool_call_count, tool_results), w))"
  by pat_completeness auto
termination
  by (relation "measure (\<lambda>(E, cid, r, n, trs, w). max_tool_calls - n)") auto

declare tool_loop.simps [simp del]

text \<open>Truth value of the token usage, as the \<^verbatim>\<open>if\<close> in the final message tests it.\<close>

fun truthy :: "pyval \<Rightarrow> bool" where
  "truthy PNone = False"
| "truthy (PBool b) = b"
| "truthy (PInt i) = (i \<noteq> 0)"
| "truthy (PStr s) = (s \<noteq> [])"
| "truthy (PList xs) = (xs \<noteq> [])"
| "truthy (PTuple xs) = (xs \<noteq> [])"
| "truthy (PDict kvs) = (kvs \<noteq> [])"

definition usage_truthy :: "pyval option \<Rightarrow> bool" where
  "usage_truthy u = (case u of None \<Rightarrow> False | Some v \<Rightarrow> truthy v)"

definition limit_warning :: string where
  "limit_warning = ''Maximum tool call limit reached''"

definition query_agent ::
  "env \<Rightarrow> string \<Rightarrow> string \<Rightarrow> int option \<Rightarrow> world \<Rightarrow> (exn + query_response) \<times> world" where
  "query_agent E agent_id query conversation_id w =
     (case (case conversation_id of
              None \<Rightarrow>
                (let conversation_name =
                       (if length query > 30 then take 30 query @ ''...'' else query)
                 in case create_conversation conversation_name agent_id w of
                      (cid, w') \<Rightarrow> (cid, w'\<lparr>messages := []\<rparr>))
            | Some cid \<Rightarrow> (cid, w)) of
        (cid, w1) \<Rightarrow>
          (let w2 = save_message cid (UserMessage query) w1
           in case process_user_input E query w2 of
                (Inl e, w3) \<Rightarrow> (Inl e, w3)
              | (Inr agent_resp, w3) \<Rightarrow>
                  (case tool_loop E cid agent_resp 0 [] w3 of
                     (Inl e, w4) \<Rightarrow> (Inl e, w4)
                   | (Inr (final_resp, tool_call_count, tool_results), w4) \<Rightarrow>
                       (let w5 = (if tool_call_count \<ge> max_tool_calls
                                  then emit (LogWarning limit_warning) w4 else w4);
                            w6 = save_message cid
                                   (FinalMessage (ar_output_text final_resp)
                                      (if usage_truthy (token_usage final_resp)
                                       then token_usage final_resp else None)) w5
                        in (Inr \<lparr>qr_response = ar_output_text final_resp,
                                 qr_tool_results =
                                   (if tool_results = [] then None else Some tool_results),
                                 qr_conversation_id = cid,
                                 qr_extra_data = token_usage final_resp\<rparr>, w6)))))"

section \<open>Scenarios\<close>

text \<open>
  Concrete frames, worlds, scripted models and processes, on which the theorems below are
  exercised: an agent with nothing loaded, an agent with \<^verbatim>\<open>prices.csv\<close> loaded, a process that
  succeeds, an installer that fails, and a script run that is interrupted.
\<close>

definition df_prices :: dataframe where
  "df_prices =
     \<lparr>df_shape = (2, 2), df_columns = [''date'', ''price''],
      df_rows = [PDict [(''date'', PStr ''2024-01-01''), (''price'', PInt 101)],
                 PDict [(''date'', PStr ''2024-01-02''), (''price'', PInt 102)]],
      df_dtypes = [(''date'', ''object''), (''price'', ''int64'')],
      df_describe = PDict [(''price'', PDict [(''count'', PInt 2)])]\<rparr>"

definition world_empty :: world where
  "world_empty =
     \<lparr>files = [], data = None, data_file = None, messages = [],
      db_conversations = [], db_messages = [], events = []\<rparr>"

definition world_loaded :: world where
  "world_loaded =
     \<lparr>files = [(''datasets'', Dir), (''datasets/prices.csv'', File ''date,price'')],
      data = Some df_prices, data_file = Some ''prices.csv'', messages = [],
      db_conversations = [], db_messages = [], events = []\<rparr>"

definition world_no_csv :: world where
  "world_no_csv =
     \<lparr>files = [(''datasets'', Dir), (''datasets/notes.txt'', File ''to do'')],
      data = None, data_file = None, messages = [],
      db_conversations = [], db_messages = [], events = []\<rparr>"

text \<open>The loaded agent with a script and its requirements left by an earlier run.\<close>

definition world_with_artifact :: world where
  "world_with_artifact =
     \<lparr>files = [(''generated_scripts/script_requirements.txt'', File (''pandas'' @ [NL])),
               (''generated_scripts/analysis_script.py'', File ''print(42)''),
               (''generated_scripts'', Dir),
               (''datasets'', Dir), (''datasets/prices.csv'', File ''date,price'')],
      data = Some df_prices, data_file = Some ''prices.csv'', messages = [],
      db_conversations = [], db_messages = [], events = []\<rparr>"

definition venv_ok :: "path \<Rightarrow> filesystem \<Rightarrow> exn option \<times> filesystem" where
  "venv_ok d t = (None, (d @ ''/bin/python'', File []) # t)"

definition proc_ok :: "string list \<Rightarrow> filesystem \<Rightarrow> (exn + completed) \<times> filesystem" where
  "proc_ok cmd t = (Inr \<lparr>returncode = 0, stdout = ''101.5'' @ [NL], stderr = []\<rparr>, t)"

definition proc_silent :: "string list \<Rightarrow> filesystem \<Rightarrow> (exn + completed) \<times> filesystem" where
  "proc_silent cmd t = (Inr \<lparr>returncode = 0, stdout = [], stderr = []\<rparr>, t)"

definition proc_pip_fails :: "string list \<Rightarrow> filesystem \<Rightarrow> (exn + completed) \<times> filesystem" where
  "proc_pip_fails cmd t =
     (Inr \<lparr>returncode = 1, stdout = [], stderr = ''ERROR: No matching distribution found''\<rparr>, t)"

definition proc_interrupted :: "string list \<Rightarrow> filesystem \<Rightarrow> (exn + completed) \<times> filesystem" where
  "proc_interrupted cmd t =
     (if length cmd = 2
      then (Inl (NonException ''KeyboardInterrupt''), (''/tmp/tmpvenv/out.png'', File ''x'') # t)
      else (Inr \<lparr>returncode = 0, stdout = [], stderr = []\<rparr>, t))"

definition model_script :: "nat \<Rightarrow> request \<Rightarrow> exn + response" where
  "model_script n req =
     Inr \<lparr>output_text = ''PACKAGES: pandas'' @ [NL] @ ''print(result)'',
          output_items = [], usage = Usage (PDict [(''total_tokens'', PInt 42)])\<rparr>"

text \<open>Models whose script answer is a single newline, and the empty text.\<close>

definition model_blank :: "nat \<Rightarrow> request \<Rightarrow> exn + response" where
  "model_blank n req =
     Inr \<lparr>output_text = [NL], output_items = [],
          usage = Usage (PDict [(''total_tokens'', PInt 42)])\<rparr>"

definition model_empty :: "nat \<Rightarrow> request \<Rightarrow> exn + response" where
  "model_empty n req =
     Inr \<lparr>output_text = [], output_items = [],
          usage = Usage (PDict [(''total_tokens'', PInt 42)])\<rparr>"

definition model_down :: "nat \<Rightarrow> request \<Rightarrow> exn + response" where
  "model_down n req = Inl (OtherException ''Connection error.'')"

definition call_item :: "string \<Rightarrow> string \<Rightarrow> string \<Rightarrow> tool_call" where
  "call_item cid name args =
     \<lparr>tc_type = ''function_call'', call_id = cid, tc_name = name, arguments = args\<rparr>"

text \<open>A model that answers every request with one \<^verbatim>\<open>get_dataset_list\<close> call.\<close>

definition model_always :: "nat \<Rightarrow> request \<Rightarrow> exn + response" where
  "model_always n req =
     Inr \<lparr>output_text = ''Working on it.'',
          output_items = [call_item ''call'' ''get_dataset_list'' ''{}''],
          usage = Usage (PDict [(''total_tokens'', PInt 42)])\<rparr>"

text \<open>The same model, with answers whose \<^verbatim>\<open>usage\<close> is \<^verbatim>\<open>None\<close>.\<close>

definition model_always_no_usage :: "nat \<Rightarrow> request \<Rightarrow> exn + response" where
  "model_always_no_usage n req =
     Inr \<lparr>output_text = ''Working on it.'',
          output_items = [call_item ''call'' ''get_dataset_list'' ''{}''],
          usage = UsageNone\<rparr>"

text \<open>A model that asks for the same five calls in one batch and then answers.\<close>

definition model_batch :: "nat \<Rightarrow> request \<Rightarrow> exn + response" where
  "model_batch n req =
     Inr \<lparr>output_text = ''Working on it.'',
          output_items =
            (if n = 0 then replicate 5 (call_item ''call'' ''get_dataset_list'' ''{}'') else []),
          usage = Usage (PDict [(''total_tokens'', PInt 42)])\<rparr>"

text \<open>A model that calls \<^verbatim>\<open>load_dataset\<close> without its \<^verbatim>\<open>filename\<close>.\<close>

definition model_load_noargs :: "nat \<Rightarrow> request \<Rightarrow> exn + response" where
  "model_load_noargs n req =
     Inr \<lparr>output_text = [],
          output_items = [call_item ''call_1'' ''load_dataset'' ''{}''],
          usage = Usage (PDict [(''total_tokens'', PInt 42)])\<rparr>"

definition env_of ::
  "(nat \<Rightarrow> request \<Rightarrow> exn + response) \<Rightarrow>
   (string list \<Rightarrow> filesystem \<Rightarrow> (exn + completed) \<times> filesystem) \<Rightarrow> env" where
  "env_of model proc =
     \<lparr>os_name = ''posix'',
      json_loads = (\<lambda>s. if s = ''{}'' then Inr (PDict []) else Inl (OtherException ''JSONDecodeError'')),
      read_csv = (\<lambda>t p. Inr df_prices),
      client = model,
      mkdtemp = (\<lambda>t. ''/tmp/tmpvenv''),
      venv_create = venv_ok,
      run_process = proc\<rparr>"

section \<open>Facts about the string operations\<close>

lemma contains_append_right: "contains sub ys \<Longrightarrow> contains sub (xs @ ys)"
  by (induction xs) auto

lemma contains_prefix_key: "prefix key old \<Longrightarrow> contains old s \<Longrightarrow> contains key s"
  by (induction s) (auto dest: prefix_order.trans)

lemma not_contains_char: "c \<notin> set s \<Longrightarrow> \<not> contains (c # t) s"
  by (induction s) auto

lemma no_early:
  assumes "key \<noteq> []" "hd key \<notin> set (tl key)" "\<not> contains key (a # pre)"
  shows "\<not> prefix key (a # pre @ key @ rest)"
proof
  assume p: "prefix key (a # pre @ key @ rest)"
  then have "prefix key ((a # pre) @ (key @ rest))" by simp
  then consider "prefix key (a # pre)" | us where "key = (a # pre) @ us" "prefix us (key @ rest)"
    unfolding prefix_append by blast
  then show False
  proof cases
    case 1
    with assms(3) show False by simp
  next
    case 2
    show False
    proof (cases us)
      case Nil
      with 2 assms(3) show False by simp
    next
      case (Cons u us')
      from assms(1) obtain k ks where k: "key = k # ks" by (cases key) auto
      from 2(2) Cons k have "u = k" by simp
      moreover from 2(1) Cons have "u \<in> set (tl key)" by simp
      ultimately show False using assms(2) k by simp
    qed
  qed
qed

lemma split_no_occ: "sep \<noteq> [] \<Longrightarrow> \<not> contains sep s \<Longrightarrow> split_py sep acc s = [acc @ s]"
  by (induction s arbitrary: acc) auto

lemma split_at_sep: "sep \<noteq> [] \<Longrightarrow> split_py sep acc (sep @ rest) = acc # split_py sep [] rest"
  by (cases sep) auto

lemma split_first:
  "sep \<noteq> [] \<Longrightarrow> hd sep \<notin> set (tl sep) \<Longrightarrow> \<not> contains sep pre \<Longrightarrow>
   split_py sep acc (pre @ sep @ rest) = (acc @ pre) # split_py sep [] rest"
proof (induction pre arbitrary: acc)
  case Nil
  then show ?case using split_at_sep by simp
next
  case (Cons a pre)
  from Cons.prems have np: "\<not> prefix sep (a # pre @ sep @ rest)" by (rule no_early)
  from Cons.prems have nc: "\<not> contains sep pre" by simp
  have "split_py sep acc ((a # pre) @ sep @ rest) = split_py sep (acc @ [a]) (pre @ sep @ rest)"
    using np by simp
  also have "\<dots> = ((acc @ [a]) @ pre) # split_py sep [] rest"
    using Cons.IH [OF Cons.prems(1,2) nc] .
  finally show ?case by simp
qed

lemma replace_no_occ: "old \<noteq> [] \<Longrightarrow> \<not> contains old s \<Longrightarrow> str_replace old new s = s"
  by (induction s) auto

lemma replace_at_old: "old \<noteq> [] \<Longrightarrow> str_replace old new (old @ rest) = new @ str_replace old new rest"
  by (cases old) auto

lemma replace_first:
  "key \<noteq> [] \<Longrightarrow> hd key \<notin> set (tl key) \<Longrightarrow> prefix key old \<Longrightarrow> \<not> contains key pre \<Longrightarrow>
   str_replace old new (pre @ old @ rest) = pre @ new @ str_replace old new rest"
proof (induction pre)
  case Nil
  then have "old \<noteq> []" by auto
  then show ?case using replace_at_old by simp
next
  case (Cons a pre)
  from Cons.prems(3) obtain t where t: "old = key @ t" by (auto simp: prefix_def)
  have "\<not> prefix key (a # pre @ key @ (t @ rest))"
    using Cons.prems(1,2,4) by (rule no_early)
  then have np: "\<not> prefix old (a # pre @ old @ rest)"
    unfolding t by (auto dest: append_prefixD)
  from Cons.prems have nc: "\<not> contains key pre" by simp
  show ?case using np Cons.IH [OF Cons.prems(1,2,3) nc] by simp
qed

lemma strip_space_Cons': "strip (CHR '' '' # s) = strip s"
  by (simp add: strip_def lstrip_def isspace_def)

lemma contains_Nil: "contains [] s"
  by (cases s) auto

lemma contains_self: "contains sub (sub @ rest)"
  by (cases sub) (auto simp: contains_Nil)

lemma contains_mid: "contains sub (pre @ sub @ rest)"
  by (rule contains_append_right) (rule contains_self)

lemma split_py_head: "\<exists>x ys. split_py sep acc s = (acc @ x) # ys"
proof (induction s arbitrary: acc)
  case Nil
  then show ?case by simp
next
  case (Cons c s)
  show ?case
  proof (cases "sep \<noteq> [] \<and> prefix sep (c # s)")
    case True
    then show ?thesis by simp
  next
    case False
    from Cons [of "acc @ [c]"] obtain x ys where "split_py sep (acc @ [c]) s = ((acc @ [c]) @ x) # ys"
      by blast
    with False show ?thesis by auto
  qed
qed

lemma no_straddle:
  assumes "sep \<noteq> []" "c0 \<notin> set sep" "\<not> contains sep (a # xs)"
  shows "\<not> prefix sep (a # xs @ c0 # rest)"
proof
  assume "prefix sep (a # xs @ c0 # rest)"
  then have "prefix sep ((a # xs) @ (c0 # rest))" by simp
  then consider "prefix sep (a # xs)" | us where "sep = (a # xs) @ us" "prefix us (c0 # rest)"
    unfolding prefix_append by blast
  then show False
  proof cases
    case 1
    with assms(3) show False by simp
  next
    case 2
    show False
    proof (cases us)
      case Nil
      with 2 assms(3) show False by simp
    next
      case (Cons u us')
      with 2(2) have "u = c0" by simp
      with 2(1) Cons assms(2) show False by simp
    qed
  qed
qed

lemma split_keep:
  "sep \<noteq> [] \<Longrightarrow> c0 \<notin> set sep \<Longrightarrow> \<not> contains sep xs \<Longrightarrow>
   \<exists>x ys. split_py sep acc (xs @ c0 # rest) = (acc @ xs @ c0 # x) # ys"
proof (induction xs arbitrary: acc)
  case Nil
  then have "\<not> prefix sep (c0 # rest)" by (cases sep) auto
  then have "split_py sep acc (c0 # rest) = split_py sep (acc @ [c0]) rest" by simp
  moreover obtain x ys where "split_py sep (acc @ [c0]) rest = ((acc @ [c0]) @ x) # ys"
    using split_py_head by blast
  ultimately show ?case by simp
next
  case (Cons a xs)
  from Cons.prems have np: "\<not> prefix sep (a # xs @ c0 # rest)" by (rule no_straddle)
  from Cons.prems have nc: "\<not> contains sep xs" by simp
  from Cons.IH [OF Cons.prems(1,2) nc, of "acc @ [a]"]
  obtain x ys where "split_py sep (acc @ [a]) (xs @ c0 # rest) = ((acc @ [a]) @ xs @ c0 # x) # ys"
    by blast
  with np show ?case by simp
qed

lemma parse_decl:
  assumes pre: "\<not> contains ''PACKAGES:'' pre"
    and names: "\<not> contains ''PACKAGES:'' ln"
    and nl: "NL \<notin> set ln"
    and st: "strip ln = ln"
  shows "generate_script_parse (pre @ ''PACKAGES: '' @ ln @ NL # rest) =
           Inr \<lparr>script = strip (pre @ str_replace (''PACKAGES: '' @ ln @ [NL]) [] rest),
                packages = map strip (str_split '','' ln)\<rparr>"
proof -
  let ?P = "''PACKAGES:''"
  let ?tx = "pre @ ''PACKAGES: '' @ ln @ NL # rest"
  let ?pat = "''PACKAGES: '' @ ln @ [NL]"
  have tx: "?tx = pre @ ?P @ (CHR '' '' # ln @ NL # rest)" by simp
  have c: "contains ?P ?tx" unfolding tx by (rule contains_mid)
  have ncl: "\<not> contains ?P (CHR '' '' # ln)" using names by simp
  have "NL \<notin> set ?P" by simp
  from split_keep [OF _ this ncl, of "[]" rest]
  obtain x ys where k: "split_py ?P [] (CHR '' '' # ln @ NL # rest) = (CHR '' '' # ln @ NL # x) # ys"
    by auto
  have sp: "str_split ?P ?tx = pre # (CHR '' '' # ln @ NL # x) # ys"
    unfolding tx str_split_def
    using split_first [of ?P pre "[]" "CHR '' '' # ln @ NL # rest"] pre k
    by simp
  have nn: "\<not> contains [NL] (CHR '' '' # ln)"
    using nl by (intro not_contains_char) simp
  have "split_py [NL] [] ((CHR '' '' # ln) @ [NL] @ x) = ([] @ CHR '' '' # ln) # split_py [NL] [] x"
    using nn by (intro split_first) simp_all
  then have sl: "str_split [NL] (CHR '' '' # ln @ NL # x) = (CHR '' '' # ln) # split_py [NL] [] x"
    by (simp add: str_split_def)
  have pl: "strip (CHR '' '' # ln) = ln" using st by (simp add: strip_space_Cons')
  have "str_replace ?pat [] (pre @ ?pat @ rest) = pre @ [] @ str_replace ?pat [] rest"
    using pre by (intro replace_first [of ?P]) simp_all
  then have rp: "str_replace ?pat [] ?tx = pre @ str_replace ?pat [] rest"
    by simp
  show ?thesis
    unfolding generate_script_parse_def using c
    by (simp only: if_True sp sl list.case pl rp Let_def)
qed

lemma parse_default:
  "\<not> contains ''PACKAGES:'' t \<Longrightarrow>
   generate_script_parse t = Inr \<lparr>script = t, packages = [''numpy'', ''pandas'', ''matplotlib'']\<rparr>"
  by (simp add: generate_script_parse_def)

section \<open>Script Synthesizer: the package declaration\<close>

text \<open>
  Claim C4, as the code has it. Let the first \<^verbatim>\<open>PACKAGES:\<close> of the answer be followed by one
  space, a list of names without surrounding whitespace and without \<^verbatim>\<open>PACKAGES:\<close> in it, and a
  newline. Then the packages are the comma-separated names, each stripped, and the script is
  the answer with that declaration line deleted, wherever it occurs, and then stripped of
  leading and trailing whitespace. When the answer does not hold \<^verbatim>\<open>PACKAGES:\<close> at all, the
  packages are numpy, pandas, matplotlib and the script is the answer, unchanged.
\<close>

theorem synthesizer_package_line:
  "(\<not> contains ''PACKAGES:'' t \<longrightarrow>
      generate_script_parse t =
        Inr \<lparr>script = t, packages = [''numpy'', ''pandas'', ''matplotlib'']\<rparr>) \<and>
   (\<not> contains ''PACKAGES:'' pre \<and> \<not> contains ''PACKAGES:'' ln \<and>
    NL \<notin> set ln \<and> strip ln = ln \<longrightarrow>
      generate_script_parse (pre @ ''PACKAGES: '' @ ln @ NL # rest) =
        Inr \<lparr>script = strip (pre @ str_replace (''PACKAGES: '' @ ln @ [NL]) [] rest),
             packages = map strip (str_split '','' ln)\<rparr>)"
  using parse_default parse_decl by blast

theorem synthesizer_package_line_witness:
  "\<not> contains ''PACKAGES:'' ''print(1)'' \<and>
   generate_script_parse ''print(1)'' =
     Inr \<lparr>script = ''print(1)'', packages = [''numpy'', ''pandas'', ''matplotlib'']\<rparr> \<and>
   \<not> contains ''PACKAGES:'' (''# plan'' @ [NL]) \<and>
   \<not> contains ''PACKAGES:'' ''pandas, numpy'' \<and>
   NL \<notin> set ''pandas, numpy'' \<and> strip ''pandas, numpy'' = ''pandas, numpy'' \<and>
   generate_script_parse
     ((''# plan'' @ [NL]) @ ''PACKAGES: '' @ ''pandas, numpy'' @ NL # ''print(result)  # PACKAGES: ok'') =
     Inr \<lparr>script = ''# plan'' @ [NL] @ ''print(result)  # PACKAGES: ok'',
          packages = [''pandas'', ''numpy'']\<rparr>"
proof -
  have h1: "\<not> contains ''PACKAGES:'' ''print(1)''" by code_simp
  have h2: "\<not> contains ''PACKAGES:'' (''# plan'' @ [NL])" by code_simp
  have h3: "\<not> contains ''PACKAGES:'' ''pandas, numpy''" by code_simp
  have h4: "NL \<notin> set ''pandas, numpy''" by simp
  have h5: "strip ''pandas, numpy'' = ''pandas, numpy''" by code_simp
  have v1: "strip ((''# plan'' @ [NL]) @
                   str_replace (''PACKAGES: '' @ ''pandas, numpy'' @ [NL]) []
                     ''print(result)  # PACKAGES: ok'') =
            ''# plan'' @ [NL] @ ''print(result)  # PACKAGES: ok''" by code_simp
  have v2: "map strip (str_split '','' ''pandas, numpy'') = [''pandas'', ''numpy'']" by code_simp
  have a: "generate_script_parse ''print(1)'' =
     Inr \<lparr>script = ''print(1)'', packages = [''numpy'', ''pandas'', ''matplotlib'']\<rparr>"
    using h1 synthesizer_package_line [of "''print(1)''"] by blast
  have b: "generate_script_parse
     ((''# plan'' @ [NL]) @ ''PACKAGES: '' @ ''pandas, numpy'' @ NL # ''print(result)  # PACKAGES: ok'') =
     Inr \<lparr>script = strip ((''# plan'' @ [NL]) @
                   str_replace (''PACKAGES: '' @ ''pandas, numpy'' @ [NL]) []
                     ''print(result)  # PACKAGES: ok''),
          packages = map strip (str_split '','' ''pandas, numpy'')\<rparr>"
    using h2 h3 h4 h5
      synthesizer_package_line [of _ "''# plan'' @ [NL]" "''pandas, numpy''"
                                   "''print(result)  # PACKAGES: ok''"]
    by blast
  show ?thesis
    using h1 h2 h3 h4 h5 a b unfolding v1 v2 by blast
qed

text \<open>
  The claim as written fails, in five ways. The script is stripped, so the text after the
  declaration line does not come back unchanged: here the final newline is lost. An answer
  that has no declaration line and mentions \<^verbatim>\<open>PACKAGES:\<close> in a comment does not get the default
  packages. A mention of \<^verbatim>\<open>PACKAGES:\<close> before the declaration line is taken for the
  declaration. Names that contain \<^verbatim>\<open>PACKAGES:\<close> are cut short. A declaration line that occurs
  twice is deleted twice.
\<close>

theorem synthesizer_roundtrip_counterexample:
  "generate_script_parse (''PACKAGES: numpy'' @ [NL] @ ''print(1)'' @ [NL]) =
     Inr \<lparr>script = ''print(1)'', packages = [''numpy'']\<rparr> \<and>
   ''print(1)'' \<noteq> ''print(1)'' @ [NL] \<and>
   generate_script_parse ''print(1)  # no PACKAGES: needed'' =
     Inr \<lparr>script = ''print(1)  # no PACKAGES: needed'', packages = [''needed'']\<rparr> \<and>
   generate_script_parse
     (''# PACKAGES: listed below'' @ [NL] @ ''PACKAGES: numpy'' @ [NL] @ ''print(1)'') =
     Inr \<lparr>script = ''# PACKAGES: numpy'' @ [NL] @ ''print(1)'',
          packages = [''listed below'']\<rparr> \<and>
   generate_script_parse (''PACKAGES: a, PACKAGES:b'' @ [NL] @ ''print(1)'') =
     Inr \<lparr>script = ''PACKAGES: a, PACKAGES:b'' @ [NL] @ ''print(1)'',
          packages = [''a'', []]\<rparr> \<and>
   generate_script_parse
     (''PACKAGES: a'' @ [NL] @ ''x'' @ [NL] @ ''PACKAGES: a'' @ [NL] @ ''y'') =
     Inr \<lparr>script = ''x'' @ [NL] @ ''y'', packages = [''a'']\<rparr>"
  by code_simp

section \<open>Tools: preconditions and error results\<close>

text \<open>
  Claim C5. A call to \<^verbatim>\<open>run_script\<close> while no dataset is loaded returns the error result and
  leaves the world as it was: no request went to the model, no environment was created, no
  process was spawned.
\<close>

theorem run_script_requires_dataset:
  "data w = None \<Longrightarrow>
   run_script E analysis_request conversation_id w =
     (Inr [(''status'', PStr ''error''),
           (''message'', PStr ''No dataset loaded. Please load a dataset first.'')], w)"
  by (simp add: run_script_def)

theorem run_script_requires_dataset_witness:
  "data world_empty = None \<and>
   run_script (env_of model_script proc_ok) (PStr ''average price'') 1 world_empty =
     (Inr [(''status'', PStr ''error''),
           (''message'', PStr ''No dataset loaded. Please load a dataset first.'')], world_empty)"
proof -
  have h: "data world_empty = None" by (simp add: world_empty_def)
  show ?thesis
    using h run_script_requires_dataset
              [OF h, of "env_of model_script proc_ok" "PStr ''average price''" 1]
    by simp
qed

text \<open>
  Claim C8. Whenever \<^verbatim>\<open>load_dataset\<close> returns a result whose status is error, the world, and with
  it the loaded frame and its filename, is unchanged; a filename that does not exist under
  \<^verbatim>\<open>datasets\<close> gives such a result.
\<close>

theorem load_dataset_error_keeps_context:
  "(load_dataset E filename w = (Inr r, w') \<and> dict_get r ''status'' = PStr ''error''
      \<longrightarrow> w' = w) \<and>
   (\<not> path_exists (files w) (path_join ''datasets'' f) \<longrightarrow>
      load_dataset E (PStr f) w =
        (Inr [(''status'', PStr ''error''),
              (''message'', PStr (''File '' @ [SQ] @ path_join ''datasets'' f @ [SQ] @ '' not found!''))],
         w))"
  by (auto simp: load_dataset_def Let_def dict_get_def split: pyval.splits sum.splits if_splits)

theorem load_dataset_error_keeps_context_witness:
  "\<not> path_exists (files world_loaded) (path_join ''datasets'' ''missing.csv'') \<and>
   load_dataset (env_of model_script proc_ok) (PStr ''missing.csv'') world_loaded =
     (Inr [(''status'', PStr ''error''),
           (''message'', PStr (''File '' @ [SQ] @ ''datasets/missing.csv'' @ [SQ] @ '' not found!''))],
      world_loaded) \<and>
   data world_loaded = Some df_prices \<and> data_file world_loaded = Some ''prices.csv''"
proof -
  have h: "\<not> path_exists (files world_loaded) (path_join ''datasets'' ''missing.csv'')"
    by (simp add: world_loaded_def path_exists_def path_join_def)
  have p: "path_join ''datasets'' ''missing.csv'' = ''datasets/missing.csv''"
    by (simp add: path_join_def)
  have d: "data world_loaded = Some df_prices \<and> data_file world_loaded = Some ''prices.csv''"
    by (simp add: world_loaded_def)
  show ?thesis
    using h p d
      load_dataset_error_keeps_context
        [of "env_of model_script proc_ok" "PStr ''missing.csv''" world_loaded
            "[(''status'', PStr ''error''),
              (''message'', PStr (''File '' @ [SQ] @ ''datasets/missing.csv'' @ [SQ] @ '' not found!''))]"
            world_loaded "''missing.csv''"]
    by simp
qed

text \<open>
  Claim C9. \<^verbatim>\<open>get_dataset_list\<close>: no \<^verbatim>\<open>datasets\<close> entry gives an error result; a directory
  without a name ending in \<^verbatim>\<open>.csv\<close> gives the status empty; otherwise the result is a success
  listing those names.
\<close>

theorem get_dataset_list_cases:
  "(\<not> path_exists (files w) ''datasets'' \<longrightarrow>
      get_dataset_list w =
        Inr [(''status'', PStr ''error''),
             (''message'', PStr (''Directory '' @ [SQ] @ ''datasets'' @ [SQ] @ '' not found!''))]) \<and>
   (listdir (files w) ''datasets'' = Inr names \<and> filter (\<lambda>f. endswith f ''.csv'') names = [] \<longrightarrow>
      get_dataset_list w =
        Inr [(''status'', PStr ''empty''),
             (''message'', PStr (''No CSV files found in the '' @ [SQ] @ ''datasets'' @ [SQ]
                                 @ '' directory.''))]) \<and>
   (listdir (files w) ''datasets'' = Inr names \<and> filter (\<lambda>f. endswith f ''.csv'') names \<noteq> [] \<longrightarrow>
      get_dataset_list w =
        Inr [(''status'', PStr ''success''),
             (''datasets'', PList (map PStr (filter (\<lambda>f. endswith f ''.csv'') names)))])"
  by (auto simp: get_dataset_list_def Let_def listdir_def path_exists_def split: option.splits node.splits)

theorem get_dataset_list_cases_witness:
  "\<not> path_exists (files world_empty) ''datasets'' \<and>
   get_dataset_list world_empty =
     Inr [(''status'', PStr ''error''),
          (''message'', PStr (''Directory '' @ [SQ] @ ''datasets'' @ [SQ] @ '' not found!''))] \<and>
   listdir (files world_no_csv) ''datasets'' = Inr [''notes.txt''] \<and>
   get_dataset_list world_no_csv =
     Inr [(''status'', PStr ''empty''),
          (''message'', PStr (''No CSV files found in the '' @ [SQ] @ ''datasets'' @ [SQ]
                              @ '' directory.''))] \<and>
   listdir (files world_loaded) ''datasets'' = Inr [''prices.csv''] \<and>
   get_dataset_list world_loaded =
     Inr [(''status'', PStr ''success''), (''datasets'', PList [PStr ''prices.csv''])]"
proof -
  have h1: "\<not> path_exists (files world_empty) ''datasets''"
    by (simp add: world_empty_def path_exists_def)
  have h2: "listdir (files world_no_csv) ''datasets'' = Inr [''notes.txt'']" by code_simp
  have f2: "filter (\<lambda>f. endswith f ''.csv'') [''notes.txt''] = []" by code_simp
  have h3: "listdir (files world_loaded) ''datasets'' = Inr [''prices.csv'']" by code_simp
  have f3: "filter (\<lambda>f. endswith f ''.csv'') [''prices.csv''] = [''prices.csv'']" by code_simp
  show ?thesis
    using h1 h2 f2 h3 f3
      get_dataset_list_cases [of world_empty "[]"]
      get_dataset_list_cases [of world_no_csv "[''notes.txt'']"]
      get_dataset_list_cases [of world_loaded "[''prices.csv'']"]
    by simp
qed

text \<open>
  Claim C10, as the code has it. With a dataset loaded, when the script-generation exchange
  raises an \<^verbatim>\<open>Exception\<close>, or the script that \<^verbatim>\<open>generate_script\<close> returns is the empty string,
  \<^verbatim>\<open>run_script\<close> returns the error result \<^verbatim>\<open>Failed to generate analysis script.\<close> and the world
  differs from the one before only by the recorded model request: no file is written, no
  environment or process is started.
\<close>

theorem synthesis_failure_writes_nothing:
  assumes "data w = Some df" and "data_file w = Some f"
    and "req = ScriptRequest (format_prompt (Some f) df analysis_request (path_join ''datasets'' f) cid)"
    and "case client E (model_requests w) req of
           Inl e \<Rightarrow> is_Exception e
         | Inr resp \<Rightarrow>
             (case generate_script_parse (output_text resp) of
                Inl e \<Rightarrow> is_Exception e
              | Inr info \<Rightarrow> script info = [])"
  shows "run_script E analysis_request cid w =
           (Inr [(''status'', PStr ''error''),
                 (''message'', PStr ''Failed to generate analysis script.'')],
            emit (ModelRequest req) w)"
  using assms
  by (auto simp: run_script_def generate_script_def Let_def split: sum.splits option.splits)

theorem synthesis_failure_writes_nothing_witness:
  "client (env_of model_down proc_ok) (model_requests world_with_artifact)
      (ScriptRequest (format_prompt (Some ''prices.csv'') df_prices (PStr ''average price'')
                        (path_join ''datasets'' ''prices.csv'') 7)) =
     Inl (OtherException ''Connection error.'') \<and>
   run_script (env_of model_down proc_ok) (PStr ''average price'') 7 world_with_artifact =
     (Inr [(''status'', PStr ''error''),
           (''message'', PStr ''Failed to generate analysis script.'')],
      emit (ModelRequest
              (ScriptRequest (format_prompt (Some ''prices.csv'') df_prices (PStr ''average price'')
                                (path_join ''datasets'' ''prices.csv'') 7))) world_with_artifact) \<and>
   generate_script_parse [] =
     Inr \<lparr>script = [], packages = [''numpy'', ''pandas'', ''matplotlib'']\<rparr> \<and>
   run_script (env_of model_empty proc_ok) (PStr ''average price'') 7 world_with_artifact =
     (Inr [(''status'', PStr ''error''),
           (''message'', PStr ''Failed to generate analysis script.'')],
      emit (ModelRequest
              (ScriptRequest (format_prompt (Some ''prices.csv'') df_prices (PStr ''average price'')
                                (path_join ''datasets'' ''prices.csv'') 7))) world_with_artifact)"
proof -
  let ?req = "ScriptRequest (format_prompt (Some ''prices.csv'') df_prices (PStr ''average price'')
                        (path_join ''datasets'' ''prices.csv'') 7)"
  have d: "data world_with_artifact = Some df_prices"
          "data_file world_with_artifact = Some ''prices.csv''"
    by (simp_all add: world_with_artifact_def)
  have c1: "client (env_of model_down proc_ok) (model_requests world_with_artifact) ?req =
              Inl (OtherException ''Connection error.'')"
    by (simp add: env_of_def model_down_def)
  have p: "generate_script_parse [] =
             Inr \<lparr>script = [], packages = [''numpy'', ''pandas'', ''matplotlib'']\<rparr>"
    by code_simp
  have c2: "case client (env_of model_empty proc_ok) (model_requests world_with_artifact) ?req of
              Inl e \<Rightarrow> is_Exception e
            | Inr resp \<Rightarrow>
                (case generate_script_parse (output_text resp) of
                   Inl e \<Rightarrow> is_Exception e
                 | Inr info \<Rightarrow> script info = [])"
    by (simp add: env_of_def model_empty_def p)
  have h1: "case client (env_of model_down proc_ok) (model_requests world_with_artifact) ?req of
              Inl e \<Rightarrow> is_Exception e
            | Inr resp \<Rightarrow>
                (case generate_script_parse (output_text resp) of
                   Inl e \<Rightarrow> is_Exception e
                 | Inr info \<Rightarrow> script info = [])"
    by (simp add: c1)
  show ?thesis
    using c1 p
      synthesis_failure_writes_nothing [OF d refl h1]
      synthesis_failure_writes_nothing [OF d refl c2]
    by simp
qed

text \<open>
  The claim as written fails: the emptiness test comes before the script is cleaned. An answer
  that is a single newline contains no script text, yet it passes the test: the earlier
  script on disk is overwritten with the empty script, an environment is created, installer
  and script are run, and the result is a success.
\<close>

theorem blank_script_counterexample:
  "generate_script_parse [NL] =
     Inr \<lparr>script = [NL], packages = [''numpy'', ''pandas'', ''matplotlib'']\<rparr> \<and>
   clean_script [NL] = [] \<and>
   map_of (files world_with_artifact) ''generated_scripts/analysis_script.py'' =
     Some (File ''print(42)'') \<and>
   fst (run_script (env_of model_blank proc_silent) (PStr ''average price'') 7 world_with_artifact) =
     Inr [(''status'', PStr ''success''), (''script'', PStr []),
          (''required_packages'', PList [PStr ''numpy'', PStr ''pandas'', PStr ''matplotlib'']),
          (''script_path'', PStr ''generated_scripts/analysis_script.py''),
          (''requirements_path'', PStr ''generated_scripts/script_requirements.txt''),
          (''execution_result'',
             PDict [(''status'', PStr ''success''), (''output'', PStr []),
                    (''message'', PStr ''Script executed successfully'')]),
          (''message'', PStr ''Script executed successfully'')] \<and>
   map_of (files (snd (run_script (env_of model_blank proc_silent) (PStr ''average price'') 7
                         world_with_artifact)))
     ''generated_scripts/analysis_script.py'' = Some (File []) \<and>
   filter is_sandbox_event
     (events (snd (run_script (env_of model_blank proc_silent) (PStr ''average price'') 7
                     world_with_artifact))) =
     [VenvCreate ''/tmp/tmpvenv'',
      Spawn [''/tmp/tmpvenv/bin/python'', ''-m'', ''pip'', ''install'', ''-r'',
             ''generated_scripts/script_requirements.txt''],
      Spawn [''/tmp/tmpvenv/bin/python'', ''generated_scripts/analysis_script.py'']]"
  by code_simp

section \<open>Sandbox Executor: release and install failure\<close>

lemma map_of_rmtree: "under d p \<Longrightarrow> map_of (rmtree d t) p = None"
  by (induction t) (auto simp: rmtree_def)

lemma files_execute:
  "\<exists>t. files (snd (execute_standalone_script E sp rp w)) = rmtree (mkdtemp E (files w)) t"
  by (auto simp: execute_standalone_script_def Let_def split: prod.splits)

text \<open>
  Claim C6. After \<^verbatim>\<open>execute_standalone_script\<close>, whatever the environment creation, the installer
  and the script did, and whether the call returned or raised, neither the temporary
  directory nor any path below it exists.
\<close>

theorem temp_dir_released:
  "under (mkdtemp E (files w)) p \<Longrightarrow>
   \<not> path_exists (files (snd (execute_standalone_script E script_path requirements_path w))) p"
proof -
  assume u: "under (mkdtemp E (files w)) p"
  obtain t where "files (snd (execute_standalone_script E script_path requirements_path w))
                    = rmtree (mkdtemp E (files w)) t"
    using files_execute by blast
  then show ?thesis using map_of_rmtree [OF u] by (simp add: path_exists_def)
qed

theorem temp_dir_released_witness:
  "under (mkdtemp (env_of model_script proc_interrupted) (files world_loaded)) ''/tmp/tmpvenv/out.png'' \<and>
   fst (execute_standalone_script (env_of model_script proc_interrupted)
          ''generated_scripts/analysis_script.py'' ''generated_scripts/script_requirements.txt''
          world_loaded) = Inl (NonException ''KeyboardInterrupt'') \<and>
   \<not> path_exists
       (files (snd (execute_standalone_script (env_of model_script proc_interrupted)
                      ''generated_scripts/analysis_script.py''
                      ''generated_scripts/script_requirements.txt'' world_loaded)))
       ''/tmp/tmpvenv/out.png''"
proof -
  have u: "under (mkdtemp (env_of model_script proc_interrupted) (files world_loaded))
             ''/tmp/tmpvenv/out.png''"
    by (simp add: env_of_def under_def)
  have r: "fst (execute_standalone_script (env_of model_script proc_interrupted)
          ''generated_scripts/analysis_script.py'' ''generated_scripts/script_requirements.txt''
          world_loaded) = Inl (NonException ''KeyboardInterrupt'')"
    by code_simp
  show ?thesis
    using u r temp_dir_released [OF u, of "''generated_scripts/analysis_script.py''"
                                         "''generated_scripts/script_requirements.txt''"]
    by simp
qed

text \<open>
  Claim C7. When the environment was created and the installer returns a non-zero code, the
  result is the error result \<^verbatim>\<open>Failed to install required packages:\<close> followed by the installer's
  stderr, and the only process spawned is the installer: the script is not run.
\<close>

theorem install_failure_short_circuits:
  assumes "venv_create E (mkdtemp E (files w)) ((mkdtemp E (files w), Dir) # files w) = (None, t1)"
    and "run_process E
           (pip_command (venv_python E (mkdtemp E (files w))) requirements_path) t1 = (Inr p, t2)"
    and "returncode p \<noteq> 0"
  shows "fst (execute_standalone_script E script_path requirements_path w) =
           Inr [(''status'', PStr ''error''),
                (''message'', PStr (''Failed to install required packages: '' @ stderr p))]
         \<and> events (snd (execute_standalone_script E script_path requirements_path w)) =
           events w @ [VenvCreate (mkdtemp E (files w)),
                       Spawn (pip_command (venv_python E (mkdtemp E (files w))) requirements_path)]"
  using assms
  by (simp add: execute_standalone_script_def sandbox_try_def subprocess_run_def emit_def Let_def)

theorem install_failure_short_circuits_witness:
  "returncode \<lparr>returncode = 1, stdout = [], stderr = ''ERROR: No matching distribution found''\<rparr> \<noteq> 0 \<and>
   fst (execute_standalone_script (env_of model_script proc_pip_fails)
          ''generated_scripts/analysis_script.py'' ''generated_scripts/script_requirements.txt''
          world_loaded) =
     Inr [(''status'', PStr ''error''),
          (''message'',
           PStr ''Failed to install required packages: ERROR: No matching distribution found'')] \<and>
   events (snd (execute_standalone_script (env_of model_script proc_pip_fails)
          ''generated_scripts/analysis_script.py'' ''generated_scripts/script_requirements.txt''
          world_loaded)) =
     [VenvCreate ''/tmp/tmpvenv'',
      Spawn [''/tmp/tmpvenv/bin/python'', ''-m'', ''pip'', ''install'', ''-r'',
             ''generated_scripts/script_requirements.txt'']]"
proof -
  let ?E = "env_of model_script proc_pip_fails"
  let ?p = "\<lparr>returncode = 1, stdout = [], stderr = ''ERROR: No matching distribution found''\<rparr>"
  let ?t = "(''/tmp/tmpvenv/bin/python'', File []) # (''/tmp/tmpvenv'', Dir) # files world_loaded"
  have m: "mkdtemp ?E (files world_loaded) = ''/tmp/tmpvenv''" by (simp add: env_of_def)
  have h1: "venv_create ?E (mkdtemp ?E (files world_loaded))
              ((mkdtemp ?E (files world_loaded), Dir) # files world_loaded) = (None, ?t)"
    by (simp add: env_of_def venv_ok_def)
  have h2: "run_process ?E
              (pip_command (venv_python ?E (mkdtemp ?E (files world_loaded)))
                 ''generated_scripts/script_requirements.txt'') ?t = (Inr ?p, ?t)"
    by (simp add: env_of_def proc_pip_fails_def)
  have h3: "returncode ?p \<noteq> 0" by simp
  have v: "pip_command (venv_python ?E ''/tmp/tmpvenv'') ''generated_scripts/script_requirements.txt''
             = [''/tmp/tmpvenv/bin/python'', ''-m'', ''pip'', ''install'', ''-r'',
                ''generated_scripts/script_requirements.txt'']"
    by (simp add: pip_command_def venv_python_def env_of_def path_join_def)
  have e: "events world_loaded = []" by (simp add: world_loaded_def)
  show ?thesis
    using h3 m v e
      install_failure_short_circuits [OF h1 h2 h3, of "''generated_scripts/analysis_script.py''"]
    by simp
qed

section \<open>Tool Dispatcher: results and argument faults\<close>

text \<open>
  The result of \<^verbatim>\<open>run_script\<close> never has a key \<^verbatim>\<open>output\<close> (the captured output sits one level
  down, under \<^verbatim>\<open>execution_result\<close>), so the branch of \<^verbatim>\<open>call_function\<close> that shortens a
  successful result is never taken.
\<close>

lemma run_script_no_output_key:
  "run_script E a cid w = (Inr r, w') \<Longrightarrow> \<not> dict_has r ''output''"
  unfolding run_script_def run_generated_def Let_def
  by (auto simp: dict_has_def split: option.splits sum.splits prod.splits if_splits)

lemma call_function_run_script_unshortened:
  "call_function E ''run_script'' args cid w = (Inr r, w') \<Longrightarrow>
   \<exists>a. run_script E a cid w = (Inr r, w')"
  unfolding call_function_def
  by (auto split: sum.splits prod.splits if_splits dest: run_script_no_output_key)

text \<open>
  Claim C1, at a successful run: the dataset is loaded, the model answers with a package line
  and a one-line script, the installer and the script return 0 and the script prints
  \<^verbatim>\<open>101.5\<close>. The dispatcher hands back the whole result of \<^verbatim>\<open>run_script\<close>, with the script, the
  paths and the execution result holding the captured output, and not the short
  \<^verbatim>\<open>executed\<close> form.
\<close>

theorem dispatcher_returns_full_result:
  "fst (call_function (env_of model_script proc_ok) ''run_script''
          (PDict [(''analysis_request'', PStr ''average price'')]) 1 world_loaded) =
   Inr [(''status'', PStr ''success''), (''script'', PStr ''print(result)''),
        (''required_packages'', PList [PStr ''pandas'']),
        (''script_path'', PStr ''generated_scripts/analysis_script.py''),
        (''requirements_path'', PStr ''generated_scripts/script_requirements.txt''),
        (''execution_result'',
           PDict [(''status'', PStr ''success''),
                  (''output'', PStr (''101.5'' @ [NL])),
                  (''message'', PStr ''Script executed successfully'')]),
        (''message'', PStr ''Script executed successfully'')]"
  by code_simp

lemma kwargs0_bad: "kvs \<noteq> [] \<Longrightarrow> \<exists>m. kwargs0 (PDict kvs) = Inl (TypeError m)"
  by (cases kvs) auto

lemma kwargs1_bad:
  "distinct (map fst kvs) \<Longrightarrow> set (map fst kvs) \<noteq> {p} \<Longrightarrow>
   \<exists>m. kwargs1 p (PDict kvs) = Inl (TypeError m)"
  by (cases "(p, PDict kvs)" rule: kwargs1.cases) auto

lemma call_function_bad_filename:
  assumes "distinct (map fst kvs)" and "set (map fst kvs) = {''filename''}"
    and "\<forall>s. map_of kvs ''filename'' \<noteq> Some (PStr s)"
  shows "\<exists>m. \<forall>w. call_function E ''load_dataset'' (PDict kvs) cid w = (Inl (TypeError m), w)"
proof -
  from assms(1,2) obtain v where kvs: "kvs = [(''filename'', v)]"
    by (cases "(''filename'', PDict kvs)" rule: kwargs1.cases) auto
  with assms(3) have "\<forall>s. v \<noteq> PStr s" by simp
  then have "\<forall>w. load_dataset E v w =
               (Inl (TypeError ''join() argument must be str, bytes, or os.PathLike object''), w)"
    by (cases v) (simp_all add: load_dataset_def)
  with kvs show ?thesis by (simp add: call_function_def)
qed

lemma call_function_bad_keys:
  assumes "map_of get_tools name = Some required"
    and "distinct (map fst kvs)" and "set (map fst kvs) \<noteq> set required"
  shows "\<exists>m. \<forall>w. call_function E name (PDict kvs) cid w = (Inl (TypeError m), w)"
proof -
  from assms(1) consider
      "name = ''get_dataset_list''" "required = []"
    | "name = ''load_dataset''" "required = [''filename'']"
    | "name = ''get_data_preview''" "required = []"
    | "name = ''get_data_info''" "required = []"
    | "name = ''run_script''" "required = [''analysis_request'']"
    by (auto simp: get_tools_def split: if_splits)
  then show ?thesis
  proof cases
    case 1
    with assms(3) obtain m where "kwargs0 (PDict kvs) = Inl (TypeError m)"
      using kwargs0_bad [of kvs] by auto
    with 1 show ?thesis by (simp add: call_function_def)
  next
    case 2
    with assms(2,3) obtain m where "kwargs1 ''filename'' (PDict kvs) = Inl (TypeError m)"
      using kwargs1_bad [of kvs "''filename''"] by auto
    with 2 show ?thesis by (simp add: call_function_def)
  next
    case 3
    with assms(3) obtain m where "kwargs0 (PDict kvs) = Inl (TypeError m)"
      using kwargs0_bad [of kvs] by auto
    with 3 show ?thesis by (simp add: call_function_def)
  next
    case 4
    with assms(3) obtain m where "kwargs0 (PDict kvs) = Inl (TypeError m)"
      using kwargs0_bad [of kvs] by auto
    with 4 show ?thesis by (simp add: call_function_def)
  next
    case 5
    with assms(2,3) obtain m where "kwargs1 ''analysis_request'' (PDict kvs) = Inl (TypeError m)"
      using kwargs1_bad [of kvs "''analysis_request''"] by auto
    with 5 show ?thesis by (simp add: call_function_def)
  qed
qed

text \<open>
  Claim C2, as the code has it. A call to a catalogued tool whose argument dictionary does not
  have exactly the declared keys (one missing, or one too many), or whose \<^verbatim>\<open>filename\<close> for
  \<^verbatim>\<open>load_dataset\<close> is not a string, raises \<^verbatim>\<open>TypeError\<close> in \<^verbatim>\<open>call_function\<close>, with the world
  untouched, and the exception leaves the loop over the tool calls of \<^verbatim>\<open>query_agent\<close>: no
  result is produced for the model.
\<close>

theorem schema_violation_raises:
  assumes "map_of get_tools (tc_name tc) = Some required"
    and "tc_type tc = ''function_call''"
    and "json_loads E (arguments tc) = Inr (PDict kvs)"
    and "distinct (map fst kvs)"
    and "set (map fst kvs) \<noteq> set required \<or>
         (tc_name tc = ''load_dataset'' \<and> (\<forall>s. map_of kvs ''filename'' \<noteq> Some (PStr s)))"
  shows "\<exists>m. call_function E (tc_name tc) (PDict kvs) cid w = (Inl (TypeError m), w) \<and>
             fst (run_tool_calls E cid (tc # tcs) tool_results w) = Inl (TypeError m)"
proof -
  let ?w2 = "(save_message cid (FunctionCall tc) w)
               \<lparr>messages := messages (save_message cid (FunctionCall tc) w) @ [FunctionCall tc]\<rparr>"
  have "\<exists>m. \<forall>v. call_function E (tc_name tc) (PDict kvs) cid v = (Inl (TypeError m), v)"
  proof (cases "set (map fst kvs) \<noteq> set required")
    case True
    with assms(1,4) show ?thesis by (rule call_function_bad_keys)
  next
    case False
    with assms(5) have n: "tc_name tc = ''load_dataset''"
      and t: "\<forall>s. map_of kvs ''filename'' \<noteq> Some (PStr s)" by simp_all
    from n assms(1) have "required = [''filename'']" by (simp add: get_tools_def)
    with False have "set (map fst kvs) = {''filename''}" by simp
    from call_function_bad_filename [OF assms(4) this t] n show ?thesis by simp
  qed
  then obtain m where m: "\<And>v. call_function E (tc_name tc) (PDict kvs) cid v = (Inl (TypeError m), v)"
    by blast
  have "fst (run_tool_calls E cid (tc # tcs) tool_results w) = Inl (TypeError m)"
    using assms(2,3) m [of ?w2] by (simp add: Let_def)
  with m [of w] show ?thesis by blast
qed

theorem schema_violation_raises_witness:
  "\<exists>m. call_function (env_of model_load_noargs proc_ok)
            (tc_name (call_item ''call_1'' ''load_dataset'' ''{}'')) (PDict []) 1 world_loaded =
          (Inl (TypeError m), world_loaded) \<and>
        fst (run_tool_calls (env_of model_load_noargs proc_ok) 1
               [call_item ''call_1'' ''load_dataset'' ''{}''] [] world_loaded) = Inl (TypeError m)"
proof -
  let ?tc = "call_item ''call_1'' ''load_dataset'' ''{}''"
  have h1: "map_of get_tools (tc_name ?tc) = Some [''filename'']"
    by (simp add: get_tools_def call_item_def)
  have h2: "tc_type ?tc = ''function_call''" by (simp add: call_item_def)
  have h3: "json_loads (env_of model_load_noargs proc_ok) (arguments ?tc) = Inr (PDict [])"
    by (simp add: env_of_def call_item_def)
  have h4: "distinct (map fst ([] :: pydict))" by simp
  have h5: "set (map fst ([] :: pydict)) \<noteq> set [''filename''] \<or>
            (tc_name ?tc = ''load_dataset'' \<and>
             (\<forall>s. map_of ([] :: pydict) ''filename'' \<noteq> Some (PStr s)))" by simp
  show ?thesis
    using schema_violation_raises [OF h1 h2 h3 h4 h5, of 1 world_loaded "[]" "[]"] .
qed

text \<open>
  The claim as written fails: \<^verbatim>\<open>load_dataset\<close> called without \<^verbatim>\<open>filename\<close> or with a number
  for it, and \<^verbatim>\<open>get_dataset_list\<close> called with a key it does not declare, raise out of the
  dispatcher, and a model answer carrying the first call makes \<^verbatim>\<open>query_agent\<close> itself raise.
\<close>

theorem schema_violation_counterexample:
  "fst (call_function (env_of model_load_noargs proc_ok) ''load_dataset'' (PDict []) 1 world_loaded) =
     Inl (TypeError ''missing 1 required positional argument'') \<and>
   fst (call_function (env_of model_load_noargs proc_ok) ''get_dataset_list''
          (PDict [(''verbose'', PBool True)]) 1 world_loaded) =
     Inl (TypeError ''got an unexpected keyword argument'') \<and>
   fst (call_function (env_of model_load_noargs proc_ok) ''load_dataset''
          (PDict [(''filename'', PInt 5)]) 1 world_loaded) =
     Inl (TypeError ''join() argument must be str, bytes, or os.PathLike object'') \<and>
   fst (query_agent (env_of model_load_noargs proc_ok) ''finance'' ''load the prices'' (Some 1)
          world_loaded) =
     Inl (TypeError ''missing 1 required positional argument'')"
  by code_simp

section \<open>Orchestration loop: the round-trip bound\<close>

text \<open>
  Tool calls only append to the event log, and what they append holds no conversation request;
  an exchange with the model appends exactly its request.
\<close>

lemma quiet_chat:
  "events w' = events w @ es \<Longrightarrow> filter is_chat_request es = [] \<Longrightarrow>
   chat_requests w' = chat_requests w"
  by (simp add: chat_requests_def)

lemma subprocess_run_events:
  "subprocess_run E cmd chk w = (r, w') \<Longrightarrow> events w' = events w @ [Spawn cmd]"
  by (auto simp: subprocess_run_def emit_def Let_def split: prod.splits sum.splits if_splits)

lemma sandbox_try_events:
  "sandbox_try E d sp rp w = (r, w') \<Longrightarrow>
   \<exists>es. events w' = events w @ es \<and> filter is_chat_request es = []"
  unfolding sandbox_try_def Let_def
  by (auto split: prod.splits sum.splits option.splits if_splits
           dest!: subprocess_run_events simp: emit_def)

lemma sandbox_except_snd: "snd (sandbox_except x) = snd x"
  by (cases x rule: sandbox_except.cases) auto

lemma execute_events:
  "execute_standalone_script E sp rp w = (r, w') \<Longrightarrow>
   \<exists>es. events w' = events w @ es \<and> filter is_chat_request es = []"
proof -
  assume a: "execute_standalone_script E sp rp w = (r, w')"
  let ?w0 = "w\<lparr>files := (mkdtemp E (files w), Dir) # files w\<rparr>"
  obtain r1 w1 where t: "sandbox_try E (mkdtemp E (files w)) sp rp ?w0 = (r1, w1)"
    by (cases "sandbox_try E (mkdtemp E (files w)) sp rp ?w0") auto
  from sandbox_try_events [OF t]
  obtain es where es: "events w1 = events w @ es" "filter is_chat_request es = []" by auto
  obtain r2 w2 where e: "sandbox_except (r1, w1) = (r2, w2)"
    by (cases "sandbox_except (r1, w1)") auto
  have "w2 = w1" using sandbox_except_snd [of "(r1, w1)"] e by simp
  with a t e have "events w' = events w1"
    by (auto simp: execute_standalone_script_def Let_def)
  with es show ?thesis by simp
qed

lemma generate_script_events:
  "generate_script E q dp cid w = (r, w') \<Longrightarrow>
   \<exists>es. events w' = events w @ es \<and> filter is_chat_request es = []"
  by (auto simp: generate_script_def Let_def emit_def
           split: option.splits sum.splits if_splits)

lemma run_generated_events:
  "run_generated E info w = (r, w') \<Longrightarrow>
   \<exists>es. events w' = events w @ es \<and> filter is_chat_request es = []"
  unfolding run_generated_def Let_def
  by (auto split: sum.splits prod.splits dest!: execute_events)

lemma run_script_events:
  "run_script E a cid w = (r, w') \<Longrightarrow>
   \<exists>es. events w' = events w @ es \<and> filter is_chat_request es = []"
proof -
  assume a: "run_script E a cid w = (r, w')"
  show ?thesis
  proof (cases "data w = None \<or> data_file w = None")
    case True
    with a have "w' = w" by (auto simp: run_script_def split: option.splits)
    then show ?thesis by simp
  next
    case False
    then obtain df f where d: "data w = Some df" "data_file w = Some f" by auto
    obtain g w1 where g: "generate_script E a (path_join ''datasets'' f) cid w = (g, w1)"
      by (cases "generate_script E a (path_join ''datasets'' f) cid w") auto
    from generate_script_events [OF g]
    obtain es1 where es1: "events w1 = events w @ es1" "filter is_chat_request es1 = []" by auto
    show ?thesis
    proof (cases "\<exists>info. g = Inr (Some info) \<and> script info \<noteq> []")
      case True
      then obtain info where i: "g = Inr (Some info)" "script info \<noteq> []" by auto
      with a d g have "run_generated E info w1 = (r, w')"
        by (simp add: run_script_def Let_def)
      from run_generated_events [OF this]
      obtain es2 where "events w' = events w1 @ es2" "filter is_chat_request es2 = []" by auto
      with es1 show ?thesis by simp
    next
      case False
      with a d g have "w' = w1"
        by (auto simp: run_script_def Let_def split: sum.splits option.splits if_splits)
      with es1 show ?thesis by simp
    qed
  qed
qed

lemma load_dataset_events:
  "load_dataset E f w = (r, w') \<Longrightarrow> events w' = events w"
  by (auto simp: load_dataset_def Let_def split: pyval.splits sum.splits if_splits)

lemma call_function_events:
  "call_function E name args cid w = (r, w') \<Longrightarrow>
   \<exists>es. events w' = events w @ es \<and> filter is_chat_request es = []"
  unfolding call_function_def
  by (auto split: sum.splits prod.splits if_splits
           dest!: run_script_events load_dataset_events)

lemma run_tool_calls_events:
  "run_tool_calls E cid tcs res w = (r, w') \<Longrightarrow>
   \<exists>es. events w' = events w @ es \<and> filter is_chat_request es = []"
proof (induction tcs arbitrary: res w)
  case Nil
  then show ?case by simp
next
  case (Cons tc tcs)
  show ?case
  proof (cases "tc_type tc \<noteq> ''function_call''")
    case True
    with Cons show ?thesis by simp
  next
    case False
    let ?w2 = "(save_message cid (FunctionCall tc) w)
                 \<lparr>messages := messages (save_message cid (FunctionCall tc) w) @ [FunctionCall tc]\<rparr>"
    have c2: "events ?w2 = events w" by (simp add: save_message_def)
    show ?thesis
    proof (cases "json_loads E (arguments tc)")
      case (Inl e)
      with False Cons.prems c2 show ?thesis by (auto simp: Let_def)
    next
      case (Inr args)
      obtain r3 w3 where cf: "call_function E (tc_name tc) args cid ?w2 = (r3, w3)"
        by (cases "call_function E (tc_name tc) args cid ?w2") auto
      from call_function_events [OF cf] c2
      obtain es1 where es1: "events w3 = events w @ es1" "filter is_chat_request es1 = []"
        by auto
      show ?thesis
      proof (cases r3)
        case (Inl e)
        with False Cons.prems Inr cf have "w' = w3" by (auto simp: Let_def)
        with es1 show ?thesis by simp
      next
        case (Inr result)
        let ?w5 = "(save_message cid (FunctionCallOutput (call_id tc) result) w3)
                     \<lparr>messages := messages (save_message cid (FunctionCallOutput (call_id tc) result) w3)
                                    @ [FunctionCallOutput (call_id tc) result]\<rparr>"
        have c5: "events ?w5 = events w3" by (simp add: save_message_def)
        from False Cons.prems \<open>json_loads E (arguments tc) = Inr args\<close> cf Inr
        have "run_tool_calls E cid tcs
                (res @ [\<lparr>tr_tool = tc_name tc, tr_arguments = args, tr_result = result\<rparr>]) ?w5 = (r, w')"
          by (simp add: Let_def)
        from Cons.IH [OF this] c5
        obtain es2 where "events w' = events w3 @ es2" "filter is_chat_request es2 = []" by auto
        with es1 show ?thesis by simp
      qed
    qed
  qed
qed

lemma run_tool_calls_chat:
  "run_tool_calls E cid tcs res w = (r, w') \<Longrightarrow> chat_requests w' = chat_requests w"
  using run_tool_calls_events quiet_chat by blast

lemma model_exchange_events:
  "model_exchange a E w = (r, w') \<Longrightarrow>
   events w' = events w @ [ModelRequest (ChatRequest (messages w))]"
  by (auto simp: model_exchange_def Let_def emit_def split: sum.splits if_splits)

lemma model_exchange_chat:
  "model_exchange a E w = (r, w') \<Longrightarrow> chat_requests w' = Suc (chat_requests w)"
  using model_exchange_events [of a E w r w'] by (simp add: chat_requests_def)

lemma tool_loop_bound:
  "n \<le> max_tool_calls \<Longrightarrow>
   chat_requests (snd (tool_loop E cid r n res w)) \<le> chat_requests w + (max_tool_calls - n)"
proof (induction "max_tool_calls - n" arbitrary: r n res w)
  case 0
  then have "n = max_tool_calls" by simp
  then show ?case by (subst tool_loop.simps) simp
next
  case (Suc k)
  then have lt: "n < max_tool_calls" and k: "k = max_tool_calls - (n + 1)" by simp_all
  show ?case
  proof (cases "needs_tool_call r")
    case False
    then show ?thesis by (subst tool_loop.simps) simp
  next
    case True
    obtain r1 w1 where rt: "run_tool_calls E cid (final_tool_calls r) res w = (r1, w1)"
      by (cases "run_tool_calls E cid (final_tool_calls r) res w") auto
    have c1: "chat_requests w1 = chat_requests w" using run_tool_calls_chat [OF rt] .
    show ?thesis
    proof (cases r1)
      case (Inl e)
      with True lt rt c1 show ?thesis by (subst tool_loop.simps) simp
    next
      case (Inr res1)
      obtain r2 w2 where h: "handle_tool_response E w1 = (r2, w2)"
        by (cases "handle_tool_response E w1") auto
      have c2: "chat_requests w2 = Suc (chat_requests w)"
        using h c1 model_exchange_chat unfolding handle_tool_response_def by fastforce
      show ?thesis
      proof (cases r2)
        case (Inl e)
        with True lt rt Inr h c2 show ?thesis by (subst tool_loop.simps) simp
      next
        case (Inr resp1)
        have "chat_requests (snd (tool_loop E cid resp1 (n + 1) res1 w2))
                \<le> chat_requests w2 + (max_tool_calls - (n + 1))"
          using Suc.hyps(1) [OF k] lt by simp
        with True lt rt \<open>r1 = Inr res1\<close> h Inr c2 show ?thesis
          by (subst tool_loop.simps) simp
      qed
    qed
  qed
qed

lemma query_agent_start:
  "\<exists>cid w1. (case conversation_id of
        None \<Rightarrow>
          (let conversation_name = (if length query > 30 then take 30 query @ ''...'' else query)
           in case create_conversation conversation_name agent_id w of
                (cid, w') \<Rightarrow> (cid, w'\<lparr>messages := []\<rparr>))
      | Some cid \<Rightarrow> (cid, w)) = (cid, w1) \<and> events w1 = events w"
  by (auto simp: create_conversation_def Let_def split: option.splits)

lemma query_agent_bound:
  "chat_requests (snd (query_agent E agent_id query conversation_id w)) \<le> chat_requests w + 6"
proof -
  from query_agent_start
  obtain cid w1 where c:
    "(case conversation_id of
        None \<Rightarrow>
          (let conversation_name = (if length query > 30 then take 30 query @ ''...'' else query)
           in case create_conversation conversation_name agent_id w of
                (cid, w') \<Rightarrow> (cid, w'\<lparr>messages := []\<rparr>))
      | Some cid \<Rightarrow> (cid, w)) = (cid, w1)" and e1: "events w1 = events w"
    by blast
  let ?w2 = "save_message cid (UserMessage query) w1"
  have c2: "chat_requests ?w2 = chat_requests w"
    using e1 by (simp add: chat_requests_def save_message_def)
  obtain r3 w3 where p: "process_user_input E query ?w2 = (r3, w3)"
    by (cases "process_user_input E query ?w2") auto
  have c3: "chat_requests w3 = Suc (chat_requests w)"
    using p c2 model_exchange_chat unfolding process_user_input_def
    by (fastforce simp: chat_requests_def)
  show ?thesis
  proof (cases r3)
    case (Inl e)
    with c p c3 show ?thesis by (simp add: query_agent_def Let_def)
  next
    case (Inr resp)
    obtain r4 w4 where l: "tool_loop E cid resp 0 [] w3 = (r4, w4)"
      by (cases "tool_loop E cid resp 0 [] w3") auto
    have c4: "chat_requests w4 \<le> chat_requests w + 6"
      using tool_loop_bound [of 0 E cid resp "[]" w3] l c3 by (simp add: max_tool_calls_def)
    show ?thesis
    proof (cases r4)
      case (Inl e)
      with c p \<open>r3 = Inr resp\<close> l c4 show ?thesis by (simp add: query_agent_def Let_def)
    next
      case (Inr x)
      obtain fr n trs where x: "x = (fr, n, trs)" by (cases x) auto
      with c p \<open>r3 = Inr resp\<close> l Inr c4 show ?thesis
        by (simp add: query_agent_def Let_def chat_requests_def emit_def save_message_def)
    qed
  qed
qed

text \<open>
  Against a model whose every answer carries a usage record and a function call, an exchange
  returns the answer to the request it has just logged, and that answer asks for a tool.
\<close>

lemma model_exchange_always:
  assumes "\<And>n msgs. \<exists>r. client E n (ChatRequest msgs) = Inr r \<and> usage r \<noteq> UsageNone \<and>
                        (\<exists>i\<in>set (output_items r). tc_type i = ''function_call'')"
  shows "\<exists>r w' resp. model_exchange a E w = (Inr r, w') \<and> needs_tool_call r \<and>
           events w' = events w @ [ModelRequest (ChatRequest (messages w))] \<and>
           client E (length (filter is_model_request (events w))) (ChatRequest (messages w)) = Inr resp \<and>
           ar_output_text r = output_text resp \<and>
           usage_model_dump (usage resp) = Inr (token_usage r)"
proof -
  from assms [of "model_requests w" "messages w"]
  obtain resp i where r: "client E (model_requests w) (ChatRequest (messages w)) = Inr resp"
    and u: "usage resp \<noteq> UsageNone"
    and i: "i \<in> set (output_items resp)" "tc_type i = ''function_call''"
    by blast
  from i have l: "list_ex (\<lambda>tc. tc_type tc = ''function_call'')
                 (filter (\<lambda>item. tc_type item = ''function_call'') (output_items resp))"
    by (auto simp: list_ex_iff)
  from u obtain tokens where t: "usage_model_dump (usage resp) = Inr tokens"
    by (cases "usage resp") auto
  from r l t show ?thesis
    by (auto simp: model_exchange_def Let_def emit_def model_requests_def)
qed

lemma tool_loop_always:
  assumes H: "\<And>n msgs. \<exists>r. client E n (ChatRequest msgs) = Inr r \<and> usage r \<noteq> UsageNone \<and>
                        (\<exists>i\<in>set (output_items r). tc_type i = ''function_call'')"
  shows "n \<le> max_tool_calls \<Longrightarrow> needs_tool_call r \<Longrightarrow>
         (\<exists>es0 msgs resp. events w = es0 @ [ModelRequest (ChatRequest msgs)] \<and>
              client E (length (filter is_model_request es0)) (ChatRequest msgs) = Inr resp \<and>
              ar_output_text r = output_text resp \<and>
              usage_model_dump (usage resp) = Inr (token_usage r)) \<Longrightarrow>
         tool_loop E cid r n res w = (Inr (r', n', res'), w') \<Longrightarrow>
         n' = max_tool_calls \<and>
         (\<exists>es. events w' = events w @ es \<and>
               length (filter is_chat_request es) = max_tool_calls - n) \<and>
         (\<exists>es0 msgs resp. events w' = es0 @ [ModelRequest (ChatRequest msgs)] \<and>
              client E (length (filter is_model_request es0)) (ChatRequest msgs) = Inr resp \<and>
              ar_output_text r' = output_text resp \<and>
              usage_model_dump (usage resp) = Inr (token_usage r'))"
proof (induction "max_tool_calls - n" arbitrary: r n res w)
  case 0
  then have "n = max_tool_calls" by simp
  with "0.prems"(3,4) show ?case by (subst (asm) tool_loop.simps) auto
next
  case (Suc k)
  then have lt: "n < max_tool_calls" and k: "k = max_tool_calls - (n + 1)" by simp_all
  obtain r1 w1 where rt: "run_tool_calls E cid (final_tool_calls r) res w = (r1, w1)"
    by (cases "run_tool_calls E cid (final_tool_calls r) res w") auto
  from run_tool_calls_events [OF rt]
  obtain e1 where e1: "events w1 = events w @ e1" "filter is_chat_request e1 = []" by auto
  from model_exchange_always [OF H]
  obtain r2 w2 resp2 where h: "handle_tool_response E w1 = (Inr r2, w2)"
    and n2: "needs_tool_call r2"
    and e2: "events w2 = events w1 @ [ModelRequest (ChatRequest (messages w1))]"
    and g2: "client E (length (filter is_model_request (events w1))) (ChatRequest (messages w1))
               = Inr resp2"
            "ar_output_text r2 = output_text resp2"
            "usage_model_dump (usage resp2) = Inr (token_usage r2)"
    unfolding handle_tool_response_def by blast
  have f2: "\<exists>es0 msgs resp. events w2 = es0 @ [ModelRequest (ChatRequest msgs)] \<and>
              client E (length (filter is_model_request es0)) (ChatRequest msgs) = Inr resp \<and>
              ar_output_text r2 = output_text resp \<and>
              usage_model_dump (usage resp) = Inr (token_usage r2)"
    using e2 g2 by blast
  show ?case
  proof (cases r1)
    case (Inl e)
    with Suc.prems(2,4) lt rt show ?thesis by (subst (asm) tool_loop.simps) simp
  next
    case (Inr res1)
    with Suc.prems(2,4) lt rt h
    have nx: "tool_loop E cid r2 (n + 1) res1 w2 = (Inr (r', n', res'), w')"
      by (subst (asm) tool_loop.simps) simp
    have le: "n + 1 \<le> max_tool_calls" using lt by simp
    note IH = Suc.hyps(1) [OF k le n2 f2 nx]
    from IH have a: "n' = max_tool_calls"
      and c: "\<exists>es0 msgs resp. events w' = es0 @ [ModelRequest (ChatRequest msgs)] \<and>
              client E (length (filter is_model_request es0)) (ChatRequest msgs) = Inr resp \<and>
              ar_output_text r' = output_text resp \<and>
              usage_model_dump (usage resp) = Inr (token_usage r')"
      by blast+
    from IH obtain es where es: "events w' = events w2 @ es"
        "length (filter is_chat_request es) = max_tool_calls - (n + 1)"
      by blast
    have "events w' = events w @ (e1 @ ModelRequest (ChatRequest (messages w1)) # es)"
      using es(1) e2 e1(1) by simp
    moreover have "length (filter is_chat_request (e1 @ ModelRequest (ChatRequest (messages w1)) # es))
                     = max_tool_calls - n"
      using es(2) e1(2) lt by simp
    ultimately have b: "\<exists>es. events w' = events w @ es \<and>
               length (filter is_chat_request es) = max_tool_calls - n"
      by blast
    from a b c show ?thesis by blast
  qed
qed

text \<open>
  An answer whose \<^verbatim>\<open>usage\<close> is \<^verbatim>\<open>None\<close> is not interpreted at all: reading the usage raises, the
  run ends after this one request with the apology, and the tool call in the answer is not
  carried out.
\<close>

lemma usage_none_ends_run:
  "fst (query_agent (env_of model_always_no_usage proc_ok) ''finance'' ''list the datasets''
          (Some 1) world_empty) =
     Inr \<lparr>qr_response = ''I'' @ [SQ] @ ''m having trouble processing your request. Please try again.'',
          qr_tool_results = None, qr_conversation_id = 1, qr_extra_data = None\<rparr> \<and>
   chat_requests (snd (query_agent (env_of model_always_no_usage proc_ok) ''finance''
                         ''list the datasets'' (Some 1) world_empty)) = 1"
  by code_simp

text \<open>
  Claim C3, as the code has it. Whatever the model answers, \<^verbatim>\<open>query_agent\<close> sends it at most six
  conversation requests: the first one and one after each of at most five rounds of tool
  calls. (The requests that \<^verbatim>\<open>run_script\<close> makes to have a script written are not conversation
  requests.) Against a model whose every answer carries a usage record and a tool call, a run
  that returns has appended to the event log five conversation requests among other events,
  then a sixth, then the limit warning and nothing more; the text and the token usage it
  returns are those of the model's answer to that sixth request. The value returned has the
  four keys of \<^verbatim>\<open>query_response\<close>: the limit is logged, not returned.
\<close>

theorem query_agent_round_trips:
  "chat_requests (snd (query_agent E agent_id query conversation_id w)) \<le> chat_requests w + 6 \<and>
   ((\<forall>n msgs. \<exists>r. client E n (ChatRequest msgs) = Inr r \<and> usage r \<noteq> UsageNone \<and>
                   (\<exists>i\<in>set (output_items r). tc_type i = ''function_call'')) \<longrightarrow>
    (\<forall>r w'. query_agent E agent_id query conversation_id w = (Inr r, w') \<longrightarrow>
       (\<exists>es msgs resp.
          events w' = events w @ es @ [ModelRequest (ChatRequest msgs), LogWarning limit_warning] \<and>
          length (filter is_chat_request es) = 5 \<and>
          client E (length (filter is_model_request (events w @ es))) (ChatRequest msgs) = Inr resp \<and>
          qr_response r = output_text resp \<and>
          usage_model_dump (usage resp) = Inr (qr_extra_data r))))"
proof (intro conjI impI allI)
  show "chat_requests (snd (query_agent E agent_id query conversation_id w)) \<le> chat_requests w + 6"
    by (rule query_agent_bound)
next
  fix r w'
  assume H: "\<forall>n msgs. \<exists>r. client E n (ChatRequest msgs) = Inr r \<and> usage r \<noteq> UsageNone \<and>
                   (\<exists>i\<in>set (output_items r). tc_type i = ''function_call'')"
    and q: "query_agent E agent_id query conversation_id w = (Inr r, w')"
  from H have H': "\<And>n msgs. \<exists>r. client E n (ChatRequest msgs) = Inr r \<and> usage r \<noteq> UsageNone \<and>
                   (\<exists>i\<in>set (output_items r). tc_type i = ''function_call'')" by blast
  from query_agent_start
  obtain cid w1 where c:
    "(case conversation_id of
        None \<Rightarrow>
          (let conversation_name = (if length query > 30 then take 30 query @ ''...'' else query)
           in case create_conversation conversation_name agent_id w of
                (cid, w') \<Rightarrow> (cid, w'\<lparr>messages := []\<rparr>))
      | Some cid \<Rightarrow> (cid, w)) = (cid, w1)" and e1: "events w1 = events w"
    by blast
  let ?w2 = "save_message cid (UserMessage query) w1"
  let ?w2u = "?w2\<lparr>messages := messages ?w2 @ [UserMessage query]\<rparr>"
  have e2: "events ?w2u = events w" using e1 by (simp add: save_message_def)
  from model_exchange_always [OF H']
  obtain r3 w3 resp3 where p: "process_user_input E query ?w2 = (Inr r3, w3)"
    and n3: "needs_tool_call r3"
    and e3: "events w3 = events ?w2u @ [ModelRequest (ChatRequest (messages ?w2u))]"
    and g3: "client E (length (filter is_model_request (events ?w2u))) (ChatRequest (messages ?w2u))
               = Inr resp3"
            "ar_output_text r3 = output_text resp3"
            "usage_model_dump (usage resp3) = Inr (token_usage r3)"
    unfolding process_user_input_def by blast
  have f3: "\<exists>es0 msgs resp. events w3 = es0 @ [ModelRequest (ChatRequest msgs)] \<and>
              client E (length (filter is_model_request es0)) (ChatRequest msgs) = Inr resp \<and>
              ar_output_text r3 = output_text resp \<and>
              usage_model_dump (usage resp) = Inr (token_usage r3)"
    using e3 g3 by blast
  obtain r4 w4 where l: "tool_loop E cid r3 0 [] w3 = (r4, w4)"
    by (cases "tool_loop E cid r3 0 [] w3") auto
  from q c p l obtain fr n trs where r4: "r4 = Inr (fr, n, trs)"
    by (cases r4) (auto simp: query_agent_def Let_def)
  have l': "tool_loop E cid r3 0 [] w3 = (Inr (fr, n, trs), w4)" using l r4 by simp
  have z: "(0::nat) \<le> max_tool_calls" by simp
  note L = tool_loop_always [OF H' z n3 f3 l']
  from L have n: "n = max_tool_calls" by blast
  from L obtain es4 where es4: "events w4 = events w3 @ es4"
      "length (filter is_chat_request es4) = max_tool_calls - 0" by blast
  from L obtain es0 msgs resp where last: "events w4 = es0 @ [ModelRequest (ChatRequest msgs)]"
      "client E (length (filter is_model_request es0)) (ChatRequest msgs) = Inr resp"
      "ar_output_text fr = output_text resp"
      "usage_model_dump (usage resp) = Inr (token_usage fr)" by blast
  from es4(2) have ne: "es4 \<noteq> []" by (auto simp: max_tool_calls_def)
  then have bl: "es4 = butlast es4 @ [last es4]" by simp
  have "events w3 @ butlast es4 @ [last es4] = es0 @ [ModelRequest (ChatRequest msgs)]"
    using es4(1) last(1) bl by simp
  then have "(events w3 @ butlast es4) @ [last es4] = es0 @ [ModelRequest (ChatRequest msgs)]"
    by simp
  then have es0: "es0 = events w3 @ butlast es4" and la: "last es4 = ModelRequest (ChatRequest msgs)"
    by (simp_all only: append1_eq_conv)
  let ?es = "ModelRequest (ChatRequest (messages ?w2u)) # butlast es4"
  have ev0: "es0 = events w @ ?es" using es0 e3 e2 by simp
  have "length (filter is_chat_request (butlast es4 @ [last es4])) = 5"
    using es4(2) bl by (simp add: max_tool_calls_def)
  then have cnt: "length (filter is_chat_request ?es) = 5" using la by simp
  from q c p l r4 n have w': "w' = save_message cid
           (FinalMessage (ar_output_text fr)
              (if usage_truthy (token_usage fr) then token_usage fr else None))
           (emit (LogWarning limit_warning) w4)"
    and r: "qr_response r = ar_output_text fr" "qr_extra_data r = token_usage fr"
    by (auto simp: query_agent_def Let_def)
  have ev: "events w' = events w @ ?es @ [ModelRequest (ChatRequest msgs), LogWarning limit_warning]"
    using w' last(1) ev0 by (simp add: save_message_def emit_def)
  have cl: "client E (length (filter is_model_request (events w @ ?es))) (ChatRequest msgs) = Inr resp"
    using last(2) ev0 by simp
  show "\<exists>es msgs resp.
          events w' = events w @ es @ [ModelRequest (ChatRequest msgs), LogWarning limit_warning] \<and>
          length (filter is_chat_request es) = 5 \<and>
          client E (length (filter is_model_request (events w @ es))) (ChatRequest msgs) = Inr resp \<and>
          qr_response r = output_text resp \<and>
          usage_model_dump (usage resp) = Inr (qr_extra_data r)"
    using ev cnt cl r last(3,4) by metis
qed

theorem query_agent_round_trips_witness:
  "fst (query_agent (env_of model_always proc_ok) ''finance'' ''list the datasets'' (Some 1) world_empty) =
     Inr \<lparr>qr_response = ''Working on it.'',
          qr_tool_results =
            Some (replicate 5
                    \<lparr>tr_tool = ''get_dataset_list'', tr_arguments = PDict [],
                     tr_result =
                       [(''status'', PStr ''error''),
                        (''message'', PStr (''Directory '' @ [SQ] @ ''datasets'' @ [SQ] @ '' not found!''))]\<rparr>),
          qr_conversation_id = 1,
          qr_extra_data = Some (PDict [(''total_tokens'', PInt 42)])\<rparr> \<and>
   chat_requests (snd (query_agent (env_of model_always proc_ok) ''finance'' ''list the datasets''
                         (Some 1) world_empty)) = 6 \<and>
   last (events (snd (query_agent (env_of model_always proc_ok) ''finance'' ''list the datasets''
                         (Some 1) world_empty))) = LogWarning limit_warning"
proof -
  let ?E = "env_of model_always proc_ok"
  let ?q = "query_agent ?E ''finance'' ''list the datasets'' (Some 1) world_empty"
  let ?r = "\<lparr>qr_response = ''Working on it.'',
          qr_tool_results =
            Some (replicate 5
                    \<lparr>tr_tool = ''get_dataset_list'', tr_arguments = PDict [],
                     tr_result =
                       [(''status'', PStr ''error''),
                        (''message'', PStr (''Directory '' @ [SQ] @ ''datasets'' @ [SQ] @ '' not found!''))]\<rparr>),
          qr_conversation_id = 1,
          qr_extra_data = Some (PDict [(''total_tokens'', PInt 42)])\<rparr>"
  have H: "\<forall>n msgs. \<exists>r. client ?E n (ChatRequest msgs) = Inr r \<and> usage r \<noteq> UsageNone \<and>
                   (\<exists>i\<in>set (output_items r). tc_type i = ''function_call'')"
    by (simp add: env_of_def model_always_def call_item_def)
  have f: "fst ?q = Inr ?r" by code_simp
  then have q: "?q = (Inr ?r, snd ?q)" by (metis prod.collapse)
  have z: "events world_empty = []" by (simp add: world_empty_def)
  from query_agent_round_trips [of ?E "''finance''" "''list the datasets''" "Some 1" world_empty]
    H q
  obtain es msgs where ev: "events (snd ?q) =
        events world_empty @ es @ [ModelRequest (ChatRequest msgs), LogWarning limit_warning]"
    and cnt: "length (filter is_chat_request es) = 5"
    by blast
  from ev cnt z have "chat_requests (snd ?q) = 6" by (simp add: chat_requests_def)
  moreover from ev have "last (events (snd ?q)) = LogWarning limit_warning" by simp
  ultimately show ?thesis using f by simp
qed

text \<open>
  The claim as written fails. The model that asks for a tool call in every answer is stopped
  by the limit; the model that asks for five calls at once and then answers is not. The caller
  receives the same value from both runs: nothing in it tells that the limit was hit.
\<close>

theorem bound_indicator_counterexample:
  "fst (query_agent (env_of model_always proc_ok) ''finance'' ''list the datasets'' (Some 1) world_empty) =
   fst (query_agent (env_of model_batch proc_ok) ''finance'' ''list the datasets'' (Some 1) world_empty) \<and>
   LogWarning limit_warning \<in>
     set (events (snd (query_agent (env_of model_always proc_ok) ''finance'' ''list the datasets''
                         (Some 1) world_empty))) \<and>
   LogWarning limit_warning \<notin>
     set (events (snd (query_agent (env_of model_batch proc_ok) ''finance'' ''list the datasets''
                         (Some 1) world_empty)))"
  by code_simp


end
